theory Spec2Isabelle
  imports Main "HOL-Library.Char_ord"
begin

section \<open>Go strings and the library functions the provider calls on them\<close>

text \<open>
  A Go \<open>string\<close> is a sequence of bytes; it is modelled as a \<open>string\<close> (a list of
  8-bit \<open>char\<close>s). The functions of this section are those of Go's \<open>strings\<close>,
  \<open>fmt\<close>, \<open>strconv\<close>, \<open>unicode/utf8\<close> and \<open>net/url\<close> packages that the provider
  calls; they are written after the documented behaviour of those packages.
\<close>

text \<open>\<open>strings.HasSuffix(s, suffix)\<close>: \<open>len(s) >= len(suffix) && s[len(s)-len(suffix):] == suffix\<close>.\<close>

definition HasSuffix :: "string \<Rightarrow> string \<Rightarrow> bool" where
  "HasSuffix s suffix =
     (length suffix \<le> length s \<and> drop (length s - length suffix) s = suffix)"

text \<open>\<open>strings.HasPrefix(s, prefix)\<close>.\<close>

definition HasPrefix :: "string \<Rightarrow> string \<Rightarrow> bool" where
  "HasPrefix s pre = (length pre \<le> length s \<and> take (length pre) s = pre)"

text \<open>\<open>strings.Contains(s, substr)\<close>: \<open>substr\<close> occurs at some offset of \<open>s\<close>.\<close>

fun Contains :: "string \<Rightarrow> string \<Rightarrow> bool" where
  "Contains [] substr = (substr = [])"
| "Contains (c # cs) substr = (HasPrefix (c # cs) substr \<or> Contains cs substr)"

text \<open>\<open>strings.TrimSuffix(s, suffix)\<close> removes one trailing copy of \<open>suffix\<close>, if there is one.\<close>

definition TrimSuffix :: "string \<Rightarrow> string \<Rightarrow> string" where
  "TrimSuffix s suffix =
     (if HasSuffix s suffix then take (length s - length suffix) s else s)"

text \<open>
  \<open>strings.Trim(s, cutset)\<close> removes every leading and every trailing byte that is in
  \<open>cutset\<close>. The provider's only cutset is the one ASCII byte \<open>"\<close>, for which Go works
  byte by byte as here.
\<close>

definition TrimLeft :: "string \<Rightarrow> string \<Rightarrow> string" where
  "TrimLeft s cutset = dropWhile (\<lambda>c. c \<in> set cutset) s"

definition TrimRight :: "string \<Rightarrow> string \<Rightarrow> string" where
  "TrimRight s cutset = rev (dropWhile (\<lambda>c. c \<in> set cutset) (rev s))"

definition Trim :: "string \<Rightarrow> string \<Rightarrow> string" where
  "Trim s cutset = TrimRight (TrimLeft s cutset) cutset"

text \<open>The verb \<open>%d\<close> of \<open>fmt\<close> on a non-negative integer: its decimal digits.\<close>

fun itoa :: "nat \<Rightarrow> string" where
  "itoa n =
     (if n < 10 then [''0123456789'' ! n]
      else itoa (n div 10) @ [''0123456789'' ! (n mod 10)])"

declare itoa.simps [simp del]

text \<open>The digit table \<open>lowerhex\<close> of \<open>strconv\<close>, read at \<open>n & 0xF\<close>.\<close>

definition lowerhex :: "nat \<Rightarrow> char" where
  "lowerhex n = ''0123456789abcdef'' ! (n mod 16)"

definition RuneError :: nat where
  "RuneError = 0xFFFD"

text \<open>
  \<open>utf8.DecodeRuneInString\<close>: the first rune of \<open>s\<close> and its width in bytes. A first
  byte below \<open>0x80\<close> is the rune itself; \<open>0xC2..0xDF\<close> starts a 2-byte rune,
  \<open>0xE0..0xEF\<close> a 3-byte rune, \<open>0xF0..0xF4\<close> a 4-byte rune; the second byte must lie in
  the accept range of the first (which excludes over-long forms, surrogates and runes
  above \<open>0x10FFFF\<close>) and the others in \<open>0x80..0xBF\<close>. Anything else is
  \<open>(RuneError, 1)\<close>; the empty string is \<open>(RuneError, 0)\<close>.
\<close>

fun DecodeRuneInString :: "string \<Rightarrow> nat \<times> nat" where
  "DecodeRuneInString [] = (RuneError, 0)"
| "DecodeRuneInString (c0 # rest) =
     (let s0 = (of_char c0 :: nat) in
      if s0 < 0x80 then (s0, 1)
      else if s0 < 0xC2 \<or> 0xF4 < s0 then (RuneError, 1)
      else
        let sz = (if s0 < 0xE0 then 2 else if s0 < 0xF0 then 3 else 4 :: nat);
            lo = (if s0 = 0xE0 then 0xA0 else if s0 = 0xF0 then 0x90 else 0x80 :: nat);
            hi = (if s0 = 0xED then 0x9F else if s0 = 0xF4 then 0x8F else 0xBF :: nat)
        in
        if Suc (length rest) < sz then (RuneError, 1)
        else
          let s1 = (of_char (rest ! 0) :: nat) in
          if s1 < lo \<or> hi < s1 then (RuneError, 1)
          else if sz \<le> 2 then ((s0 mod 32) * 64 + s1 mod 64, 2)
          else
            let s2 = (of_char (rest ! 1) :: nat) in
            if s2 < 0x80 \<or> 0xBF < s2 then (RuneError, 1)
            else if sz \<le> 3 then ((s0 mod 16) * 4096 + (s1 mod 64) * 64 + s2 mod 64, 3)
            else
              let s3 = (of_char (rest ! 2) :: nat) in
              if s3 < 0x80 \<or> 0xBF < s3 then (RuneError, 1)
              else ((s0 mod 8) * 262144 + (s1 mod 64) * 4096 + (s2 mod 64) * 64 + s3 mod 64, 4))"

declare DecodeRuneInString.simps(2) [simp del]

text \<open>
  \<open>strconv.IsPrint\<close>. From space to \<open>~\<close> every ASCII rune is printable and no other
  ASCII rune is. For the runes from \<open>0x80\<close> on Go consults tables of the Unicode
  standard; they are the parameter \<open>tbl\<close>.
\<close>

definition IsPrint :: "(nat \<Rightarrow> bool) \<Rightarrow> nat \<Rightarrow> bool" where
  "IsPrint tbl r = (if r < 0x80 then 0x20 \<le> r \<and> r \<le> 0x7E else tbl r)"

text \<open>
  \<open>strconv.appendEscapedRune\<close> with quote \<open>"\<close>, as \<open>strconv.Quote\<close> calls it: the bytes
  written for the rune \<open>r\<close>. A printable rune is written in UTF-8 by
  \<open>utf8.AppendRune\<close>; as \<open>r\<close> was decoded from well-formed input, these are the bytes
  \<open>enc\<close> it was decoded from.
\<close>

definition appendEscapedRune :: "(nat \<Rightarrow> bool) \<Rightarrow> nat \<Rightarrow> string \<Rightarrow> string" where
  "appendEscapedRune tbl r enc =
     (if r = 0x22 \<or> r = 0x5C then [CHR 0x5C, char_of r]
      else if IsPrint tbl r then enc
      else if r = 0x07 then [CHR 0x5C, CHR ''a'']
      else if r = 0x08 then [CHR 0x5C, CHR ''b'']
      else if r = 0x0C then [CHR 0x5C, CHR ''f'']
      else if r = 0x0A then [CHR 0x5C, CHR ''n'']
      else if r = 0x0D then [CHR 0x5C, CHR ''r'']
      else if r = 0x09 then [CHR 0x5C, CHR ''t'']
      else if r = 0x0B then [CHR 0x5C, CHR ''v'']
      else if r < 0x20 \<or> r = 0x7F then
        [CHR 0x5C, CHR ''x'', lowerhex (r div 16), lowerhex r]
      else if r < 0x10000 then
        [CHR 0x5C, CHR ''u''] @ map (\<lambda>sh. lowerhex (r div 2 ^ sh)) [12, 8, 4, 0]
      else
        [CHR 0x5C, CHR ''U''] @ map (\<lambda>sh. lowerhex (r div 2 ^ sh)) [28, 24, 20, 16, 12, 8, 4, 0])"

text \<open>
  One turn of the loop of \<open>strconv.Quote\<close> on a non-empty \<open>s\<close>: the bytes appended and
  the number of bytes of \<open>s\<close> consumed. A byte that is not the start of a well-formed
  rune is written as \<open>\x\<close> and two hex digits.
\<close>

definition quoteStep :: "(nat \<Rightarrow> bool) \<Rightarrow> string \<Rightarrow> string \<times> nat" where
  "quoteStep tbl s =
     (let s0 = (of_char (hd s) :: nat);
          (r, width) = (if s0 \<ge> 0x80 then DecodeRuneInString s else (s0, 1))
      in if width = 1 \<and> r = RuneError then
           ([CHR 0x5C, CHR ''x'', lowerhex (s0 div 16), lowerhex s0], width)
         else (appendEscapedRune tbl r (take width s), width))"

text \<open>
  The loop \<open>for width := 0; len(s) > 0; s = s[width:]\<close>. The width is at least 1, so
  \<open>s[width:]\<close> is the tail of \<open>s\<close> less \<open>width - 1\<close> bytes.
\<close>

fun quoteLoop :: "(nat \<Rightarrow> bool) \<Rightarrow> string \<Rightarrow> string" where
  "quoteLoop tbl [] = []"
| "quoteLoop tbl (c # cs) =
     fst (quoteStep tbl (c # cs)) @ quoteLoop tbl (drop (snd (quoteStep tbl (c # cs)) - 1) cs)"

text \<open>\<open>strconv.Quote(s)\<close>, which is also \<open>fmt.Sprintf("%q", s)\<close>.\<close>

definition Quote :: "(nat \<Rightarrow> bool) \<Rightarrow> string \<Rightarrow> string" where
  "Quote tbl s = [CHR 0x22] @ quoteLoop tbl s @ [CHR 0x22]"

text \<open>
  A Go \<open>error\<close> is an interface whose one method \<open>Error()\<close> gives a message, and the
  provider looks at nothing else of an error: an error is modelled as its message. A
  result of type \<open>(T, error)\<close> is \<open>error + T\<close>, with \<open>Inl\<close> the error.
\<close>

type_synonym error = string

definition ishex :: "char \<Rightarrow> bool" where
  "ishex c =
     ((CHR ''0'' \<le> c \<and> c \<le> CHR ''9'') \<or> (CHR ''a'' \<le> c \<and> c \<le> CHR ''f'')
      \<or> (CHR ''A'' \<le> c \<and> c \<le> CHR ''F''))"

definition unhex :: "char \<Rightarrow> nat" where
  "unhex c =
     (if CHR ''0'' \<le> c \<and> c \<le> CHR ''9'' then of_char c - of_char CHR ''0''
      else if CHR ''a'' \<le> c \<and> c \<le> CHR ''f'' then of_char c - of_char CHR ''a'' + 10
      else if CHR ''A'' \<le> c \<and> c \<le> CHR ''F'' then of_char c - of_char CHR ''A'' + 10
      else 0)"

text \<open>
  \<open>url.PathUnescape\<close>: every \<open>%XY\<close> with hex digits \<open>X\<close>, \<open>Y\<close> becomes the byte
  \<open>0xXY\<close>; a \<open>%\<close> not followed by two hex digits is the error
  \<open>invalid URL escape\<close> that quotes the (at most three) bytes from the \<open>%\<close> on. Go
  checks the whole string before it decodes; the first offending \<open>%\<close> from the left is
  reported either way.
\<close>

fun PathUnescape :: "(nat \<Rightarrow> bool) \<Rightarrow> string \<Rightarrow> error + string" where
  "PathUnescape tbl [] = Inr []"
| "PathUnescape tbl (c # cs) =
     (if c = CHR ''%'' then
        (case cs of
           h1 # h2 # rest \<Rightarrow>
             if ishex h1 \<and> ishex h2 then
               (case PathUnescape tbl rest of
                  Inl e \<Rightarrow> Inl e
                | Inr t \<Rightarrow> Inr (char_of (unhex h1 * 16 + unhex h2) # t))
             else Inl (''invalid URL escape '' @ Quote tbl (take 3 (c # cs)))
         | _ \<Rightarrow> Inl (''invalid URL escape '' @ Quote tbl (take 3 (c # cs))))
      else
        (case PathUnescape tbl cs of
           Inl e \<Rightarrow> Inl e
         | Inr t \<Rightarrow> Inr (c # t)))"

section \<open>Values of the plugin framework\<close>

text \<open>
  An attribute of type \<open>types.String\<close> is null, unknown or a known string.
  \<open>IsNull()\<close> holds of the null value only; \<open>ValueString()\<close> is the empty string
  unless the value is known; \<open>String()\<close> is the value formatted with \<open>%q\<close>, or one of
  two fixed texts.
\<close>

datatype tf_string = StringNull | StringUnknown | StringValue string

fun IsNull :: "tf_string \<Rightarrow> bool" where
  "IsNull StringNull = True"
| "IsNull StringUnknown = False"
| "IsNull (StringValue s) = False"

fun ValueString :: "tf_string \<Rightarrow> string" where
  "ValueString (StringValue s) = s"
| "ValueString StringNull = []"
| "ValueString StringUnknown = []"

fun tf_String :: "(nat \<Rightarrow> bool) \<Rightarrow> tf_string \<Rightarrow> string" where
  "tf_String tbl StringUnknown = ''<unknown>''"
| "tf_String tbl StringNull = ''<null>''"
| "tf_String tbl (StringValue s) = Quote tbl s"

text \<open>\<open>types.Int64\<close>: \<open>ValueInt64()\<close> is 0 unless the value is known.\<close>

datatype tf_int64 = Int64Null | Int64Unknown | Int64Value int

fun Int64IsNull :: "tf_int64 \<Rightarrow> bool" where
  "Int64IsNull Int64Null = True"
| "Int64IsNull Int64Unknown = False"
| "Int64IsNull (Int64Value n) = False"

fun ValueInt64 :: "tf_int64 \<Rightarrow> int" where
  "ValueInt64 (Int64Value n) = n"
| "ValueInt64 Int64Null = 0"
| "ValueInt64 Int64Unknown = 0"

text \<open>
  \<open>types.List\<close> with string elements: null, unknown, or a known list whose elements
  are string attributes. \<open>Elements()\<close> of a null or unknown list is empty.
\<close>

datatype tf_list = ListNull | ListUnknown | ListValue "tf_string list"

fun ListIsNull :: "tf_list \<Rightarrow> bool" where
  "ListIsNull ListNull = True"
| "ListIsNull ListUnknown = False"
| "ListIsNull (ListValue es) = False"

fun Elements :: "tf_list \<Rightarrow> tf_string list" where
  "Elements (ListValue es) = es"
| "Elements ListNull = []"
| "Elements ListUnknown = []"

text \<open>
  An error diagnostic added with \<open>AddError(summary, detail)\<close>. \<open>resp.Diagnostics\<close> is the
  list of those added, oldest first.
\<close>

type_synonym diagnostic = "string \<times> string"

text \<open>
  What an operation did to \<open>resp.State\<close>: nothing, \<open>RemoveResource\<close>, or \<open>Set\<close> with a
  model.
\<close>

datatype 'm tf_state = StateUntouched | StateRemoved | StateSet 'm

section \<open>The data model\<close>

record GoogleSiteVerificationProviderModel =
  Project :: tf_string
  ImpersonateServiceAccount :: tf_string
  TokenDuration :: tf_int64

text \<open>
  \<open>google.Credentials\<close>: the project and the token source, which stands for all the
  provider does not read.
\<close>

record Credentials =
  ProjectID :: string
  TokenSource :: string

record GenerateAccessTokenRequest =
  Name :: string
  Scope :: "string list"
  Lifetime :: int

record DomainKeyDataSourceModel =
  VerificationMethod :: tf_string
  SiteIdentifier :: tf_string
  SiteType :: tf_string
  Token :: tf_string

text \<open>The request and response types of the two remote APIs, with the fields the provider uses.\<close>

record GettokenRequestSite =
  Identifier :: string
  Type :: string

record GettokenRequest =
  Site :: GettokenRequestSite
  VerificationMethod :: string

record GettokenResponse =
  Token :: string

record WebResourceResourceSite =
  Identifier :: string
  Type :: string

text \<open>
  \<open>sitev1.SiteVerificationWebResourceResource\<close>. \<open>Site\<close> is a pointer, \<open>None\<close> when nil.
  \<open>Owners\<close> is a slice; a nil slice and an empty one are both \<open>[]\<close>: the provider only
  reads its elements and appends to it, and the JSON encoding (\<open>omitempty\<close>) leaves
  the field out in both cases.
\<close>

record WebResourceResource =
  Id :: string
  Owners :: "string list"
  Site :: "WebResourceResourceSite option"

record ResourceRecordSet =
  Name :: string
  Rrdatas :: "string list"
  Ttl :: int
  Type :: string

text \<open>
  The two API clients. A remote call is a function from the arguments of the request
  to its outcome, so that nothing is assumed of the services; each operation of the
  provider calls an endpoint at most once. A call that returns only an \<open>error\<close> is an
  \<open>error option\<close>, with \<open>None\<close> for Go's nil.
\<close>

record dns_service =
  ResourceRecordSets_Create ::
    "string \<Rightarrow> string \<Rightarrow> string \<Rightarrow> ResourceRecordSet \<Rightarrow> error + ResourceRecordSet"
  ResourceRecordSets_Get ::
    "string \<Rightarrow> string \<Rightarrow> string \<Rightarrow> string \<Rightarrow> string \<Rightarrow> error + ResourceRecordSet"
  ResourceRecordSets_Delete ::
    "string \<Rightarrow> string \<Rightarrow> string \<Rightarrow> string \<Rightarrow> string \<Rightarrow> error option"

record sv_service =
  WebResource_GetToken :: "GettokenRequest \<Rightarrow> error + GettokenResponse"
  WebResource_Insert :: "string \<Rightarrow> WebResourceResource \<Rightarrow> error + WebResourceResource"
  WebResource_Get :: "string \<Rightarrow> error + WebResourceResource"
  WebResource_Patch :: "string \<Rightarrow> WebResourceResource \<Rightarrow> error + WebResourceResource"
  WebResource_Delete :: "string \<Rightarrow> error option"

text \<open>
  What \<open>Configure\<close> asks of its surroundings: the ambient credentials, the IAM
  credentials client and its \<open>GenerateAccessToken\<close>, the token introspection (giving the
  e-mail address) and the constructors of the clients, each from the credentials (and
  scopes) it is given.
\<close>

record environment =
  FindDefaultCredentials :: "error + Credentials"
  NewIamCredentialsClient :: "Credentials \<Rightarrow> error option"
  GenerateAccessToken :: "Credentials \<Rightarrow> GenerateAccessTokenRequest \<Rightarrow> error + string"
  oauthv2_NewService :: "Credentials \<Rightarrow> string list \<Rightarrow> error option"
  Tokeninfo :: "Credentials \<Rightarrow> error + string"
  sitev1_NewService :: "Credentials \<Rightarrow> string list \<Rightarrow> error + sv_service"
  dnsv2_NewService :: "Credentials \<Rightarrow> string list \<Rightarrow> error + dns_service"

text \<open>The remote calls an operation made, in the order it made them.\<close>

datatype call =
    DNS_Create string string string ResourceRecordSet
  | DNS_Get string string string string string
  | DNS_Delete string string string string string
  | SV_GetToken GettokenRequest
  | SV_Insert string WebResourceResource
  | SV_Get string
  | SV_Patch string WebResourceResource
  | SV_Delete string

text \<open>The project a call to the DNS service names; the other calls name none.\<close>

fun dnsProject :: "call \<Rightarrow> string option" where
  "dnsProject (DNS_Create project location zone rrset) = Some project"
| "dnsProject (DNS_Get project location zone name type) = Some project"
| "dnsProject (DNS_Delete project location zone name type) = Some project"
| "dnsProject (SV_GetToken greq) = None"
| "dnsProject (SV_Insert method greq) = None"
| "dnsProject (SV_Get ident) = None"
| "dnsProject (SV_Patch ident greq) = None"
| "dnsProject (SV_Delete ident) = None"

text \<open>What an operation leaves behind: its remote calls, its diagnostics and its state.\<close>

record 'm response =
  Calls :: "call list"
  Diagnostics :: "diagnostic list"
  State :: "'m tf_state"

record SiteVerificationClients =
  ProjectID :: string
  DefaultOwner :: string
  SiteVerification :: sv_service
  DNS :: dns_service

record SiteVerificationResourceModel =
  Project :: tf_string
  VerificationMethod :: tf_string
  SiteIdentifier :: tf_string
  SiteType :: tf_string
  Token :: tf_string
  ManagedZone :: tf_string
  Owners :: tf_list
  ID :: tf_string

section \<open>Helpers of the provider\<close>

text \<open>
  \<^verbatim>\<open>
  func forceDot(str string) string {
      if strings.HasSuffix(str, ".") { return str }
      return fmt.Sprintf("%s.", str)
  }
  \<close>
\<close>

definition forceDot :: "string \<Rightarrow> string" where
  "forceDot str = (if HasSuffix str ''.'' then str else str @ ''.'')"

text \<open>
  \<open>stringSliceToListValue\<close> and \<open>parseOwnersFromResponse\<close> wrap every string of a
  slice in a known string value and build a known list of them (of a nil slice, the
  known empty list). \<open>types.ListValue\<close> reports a diagnostic only for an element of
  another type than the list's, which strings are not.
\<close>

definition stringSliceToListValue :: "string list \<Rightarrow> tf_list" where
  "stringSliceToListValue vals = ListValue (map StringValue vals)"

definition parseOwnersFromResponse :: "WebResourceResource \<Rightarrow> tf_list" where
  "parseOwnersFromResponse resp = ListValue (map StringValue (WebResourceResource.Owners resp))"

text \<open>
  \<open>listValueToStringSlice\<close> converts the elements in order and stops at the first
  that fails. An element is converted by \<open>ToTerraformValue\<close> and \<open>As(&str)\<close>: a
  known string is itself, a null one the empty string, and an unknown one an error of
  the framework.
\<close>

definition elemToString :: "tf_string \<Rightarrow> error + string" where
  "elemToString elem =
     (case elem of
        StringValue v \<Rightarrow> Inr v
      | StringNull \<Rightarrow> Inr []
      | StringUnknown \<Rightarrow> Inl ''unmarshaling unknown values is not supported'')"

fun elemsToStrings :: "tf_string list \<Rightarrow> error + string list" where
  "elemsToStrings [] = Inr []"
| "elemsToStrings (elem # elems) =
     (case elemToString elem of
        Inl err \<Rightarrow> Inl err
      | Inr str \<Rightarrow>
          (case elemsToStrings elems of
             Inl err \<Rightarrow> Inl err
           | Inr vals \<Rightarrow> Inr (str # vals)))"

definition listValueToStringSlice :: "tf_list \<Rightarrow> error + string list" where
  "listValueToStringSlice list = elemsToStrings (Elements list)"

definition parseOwnersFromData :: "SiteVerificationResourceModel \<Rightarrow> error + string list" where
  "parseOwnersFromData data =
     (if ListIsNull (Owners data) then Inr [] else listValueToStringSlice (Owners data))"

definition decodeID :: "(nat \<Rightarrow> bool) \<Rightarrow> string \<Rightarrow> error + string" where
  "decodeID tbl ident = PathUnescape tbl ident"

text \<open>\<open>SiteID\<close>: \<open>strings.TrimSuffix(s.SiteIdentifier.ValueString(), ".")\<close>.\<close>

definition SiteID :: "SiteVerificationResourceModel \<Rightarrow> string" where
  "SiteID s = TrimSuffix (ValueString (SiteIdentifier s)) ''.''"

section \<open>The domain-key data source\<close>

text \<open>
  \<open>DomainKeyDataSource.Read\<close>, from the point where the configuration has been read
  into \<open>data\<close> without an error. \<open>client\<close> is \<open>d.client\<close>.
\<close>

definition DomainKeyDataSource_Read ::
    "sv_service \<Rightarrow> DomainKeyDataSourceModel \<Rightarrow> DomainKeyDataSourceModel response" where
  "DomainKeyDataSource_Read client config =
     (let data = (if IsNull (DomainKeyDataSourceModel.SiteType config)
                  then config\<lparr>DomainKeyDataSourceModel.SiteType := StringValue ''INET_DOMAIN''\<rparr>
                  else config);
          data = (if IsNull (DomainKeyDataSourceModel.VerificationMethod data)
                  then data\<lparr>DomainKeyDataSourceModel.VerificationMethod := StringValue ''DNS_TXT''\<rparr>
                  else data);
          greq = \<lparr>GettokenRequest.Site =
                    \<lparr>GettokenRequestSite.Identifier =
                       ValueString (DomainKeyDataSourceModel.SiteIdentifier data),
                     GettokenRequestSite.Type =
                       ValueString (DomainKeyDataSourceModel.SiteType data)\<rparr>,
                  GettokenRequest.VerificationMethod =
                    ValueString (DomainKeyDataSourceModel.VerificationMethod data)\<rparr>
      in case WebResource_GetToken client greq of
           Inl err \<Rightarrow>
             \<lparr>Calls = [SV_GetToken greq],
              Diagnostics = [(''Error retrieving verification token'', err)],
              State = StateUntouched\<rparr>
         | Inr callResp \<Rightarrow>
             \<lparr>Calls = [SV_GetToken greq],
              Diagnostics = [],
              State = StateSet (data\<lparr>DomainKeyDataSourceModel.Token :=
                                         StringValue (GettokenResponse.Token callResp)\<rparr>)\<rparr>)"

section \<open>The site-verification resource\<close>

text \<open>
  The helpers of the resource take the model \<open>data\<close> by pointer and return an error.
  Here each returns the remote calls it made and either the error or (where it
  assigns to the model) the model after it. \<open>r\<close> is \<open>r.Clients\<close>.
\<close>

definition createDNSRecord ::
    "SiteVerificationClients \<Rightarrow> SiteVerificationResourceModel \<Rightarrow> call list \<times> error option" where
  "createDNSRecord r data =
     (let record = \<lparr>Name = forceDot (ValueString (SiteIdentifier data)),
                     Rrdatas = [ValueString (Token data)],
                     Ttl = 60,
                     Type = ''TXT''\<rparr>
      in ([DNS_Create (ValueString (Project data)) ''global'' (ValueString (ManagedZone data)) record],
          case ResourceRecordSets_Create (DNS r)
                 (ValueString (Project data)) ''global'' (ValueString (ManagedZone data)) record of
            Inl err \<Rightarrow> Some err
          | Inr gresp \<Rightarrow> None))"

definition readDNSRecord ::
    "SiteVerificationClients \<Rightarrow> SiteVerificationResourceModel
     \<Rightarrow> call list \<times> (error + SiteVerificationResourceModel)" where
  "readDNSRecord r data =
     ([DNS_Get (ValueString (Project data)) ''global'' (ValueString (ManagedZone data))
         (ValueString (SiteIdentifier data)) ''TXT''],
      case ResourceRecordSets_Get (DNS r)
             (ValueString (Project data)) ''global'' (ValueString (ManagedZone data))
             (ValueString (SiteIdentifier data)) ''TXT'' of
        Inl err \<Rightarrow> Inl err
      | Inr gresp \<Rightarrow>
          if length (Rrdatas gresp) \<noteq> 1 then
            Inl (''Expected 1 TXT record, got '' @ itoa (length (Rrdatas gresp)))
          else Inr (data\<lparr>Token := StringValue (Trim (Rrdatas gresp ! 0) [CHR 0x22])\<rparr>))"

definition deleteDNSRecord ::
    "SiteVerificationClients \<Rightarrow> SiteVerificationResourceModel \<Rightarrow> call list \<times> error option" where
  "deleteDNSRecord r data =
     ([DNS_Delete (ValueString (Project data)) ''global'' (ValueString (ManagedZone data))
         (ValueString (SiteIdentifier data)) ''TXT''],
      ResourceRecordSets_Delete (DNS r)
        (ValueString (Project data)) ''global'' (ValueString (ManagedZone data))
        (ValueString (SiteIdentifier data)) ''TXT'')"

definition buildSiteVerification ::
    "SiteVerificationResourceModel \<Rightarrow> bool \<Rightarrow> error + WebResourceResource" where
  "buildSiteVerification data includeSite =
     (let greq = \<lparr>Id = [], WebResourceResource.Owners = [], Site = None\<rparr>;
          greq = (if includeSite
                  then greq\<lparr>Site := Some
                         \<lparr>WebResourceResourceSite.Identifier = ValueString (SiteIdentifier data),
                          WebResourceResourceSite.Type = ValueString (SiteType data)\<rparr>\<rparr>
                  else greq)
      in if \<not> ListIsNull (Owners data) then
           (case parseOwnersFromData data of
              Inl err \<Rightarrow> Inl err
            | Inr owners \<Rightarrow>
                Inr (greq\<lparr>WebResourceResource.Owners := WebResourceResource.Owners greq @ owners\<rparr>))
         else Inr greq)"

text \<open>
  Whether the JSON body of a request carries an \<open>owners\<close> field. The field is tagged
  \<open>omitempty\<close> and the provider never sets \<open>ForceSendFields\<close>, so it is sent when the
  slice has an element.
\<close>

definition ownersFieldSent :: "WebResourceResource \<Rightarrow> bool" where
  "ownersFieldSent greq = (WebResourceResource.Owners greq \<noteq> [])"

definition insertSiteVerification ::
    "(nat \<Rightarrow> bool) \<Rightarrow> SiteVerificationClients \<Rightarrow> SiteVerificationResourceModel
     \<Rightarrow> call list \<times> (error + SiteVerificationResourceModel)" where
  "insertSiteVerification tbl r data =
     (case buildSiteVerification data True of
        Inl err \<Rightarrow> ([], Inl err)
      | Inr greq \<Rightarrow>
          ([SV_Insert (ValueString (VerificationMethod data)) greq],
           case WebResource_Insert (SiteVerification r) (ValueString (VerificationMethod data)) greq of
             Inl err \<Rightarrow> Inl err
           | Inr callResp \<Rightarrow>
               (let data = data\<lparr>Owners := parseOwnersFromResponse callResp\<rparr>
                in case decodeID tbl (Id callResp) of
                     Inl err \<Rightarrow> Inl err
                   | Inr ident \<Rightarrow> Inr (data\<lparr>ID := StringValue ident\<rparr>))))"

definition readSiteVerification ::
    "SiteVerificationClients \<Rightarrow> SiteVerificationResourceModel
     \<Rightarrow> call list \<times> (error + SiteVerificationResourceModel)" where
  "readSiteVerification r data =
     ([SV_Get (SiteID data)],
      case WebResource_Get (SiteVerification r) (SiteID data) of
        Inl err \<Rightarrow> Inl err
      | Inr resp \<Rightarrow> Inr (data\<lparr>Owners := parseOwnersFromResponse resp\<rparr>))"

definition patchSiteVerification ::
    "SiteVerificationClients \<Rightarrow> SiteVerificationResourceModel
     \<Rightarrow> call list \<times> (error + SiteVerificationResourceModel)" where
  "patchSiteVerification r data =
     (case buildSiteVerification data False of
        Inl err \<Rightarrow> ([], Inl err)
      | Inr greq \<Rightarrow>
          ([SV_Patch (SiteID data) greq],
           case WebResource_Patch (SiteVerification r) (SiteID data) greq of
             Inl err \<Rightarrow> Inl err
           | Inr callResp \<Rightarrow>
               Inr (data\<lparr>Owners := stringSliceToListValue (WebResourceResource.Owners greq)\<rparr>)))"

definition deleteSiteVerification ::
    "SiteVerificationClients \<Rightarrow> SiteVerificationResourceModel \<Rightarrow> call list \<times> error option" where
  "deleteSiteVerification r data =
     ([SV_Delete (SiteID data)], WebResource_Delete (SiteVerification r) (SiteID data))"

text \<open>
  The four operations, each from the point where the plan (for \<open>Create\<close> and
  \<open>Update\<close>) or the prior state (for \<open>Read\<close> and \<open>Delete\<close>) has been read into
  \<open>data\<close> without an error. \<open>Delete\<close> does not touch \<open>resp.State\<close>.
\<close>

definition Create ::
    "(nat \<Rightarrow> bool) \<Rightarrow> SiteVerificationClients \<Rightarrow> SiteVerificationResourceModel
     \<Rightarrow> SiteVerificationResourceModel response" where
  "Create tbl r plan =
     (let data = (if IsNull (SiteType plan) then plan\<lparr>SiteType := StringValue ''INET_DOMAIN''\<rparr>
                  else plan);
          data = (if IsNull (VerificationMethod data)
                  then data\<lparr>VerificationMethod := StringValue ''DNS_TXT''\<rparr> else data);
          dns = (if ValueString (SiteType data) = ''INET_DOMAIN'' then
                   (if ValueString (VerificationMethod data) = ''DNS_TXT'' then
                      (let data = (if IsNull (Project data)
                                   then data\<lparr>Project := StringValue (ProjectID r)\<rparr> else data)
                       in (data, createDNSRecord r data))
                    else (data, [], None))
                 else (data, [], None))
      in case dns of
           (data, cs, Some err) \<Rightarrow>
             \<lparr>Calls = cs, Diagnostics = [(''Error creating DNS record'', err)],
              State = StateUntouched\<rparr>
         | (data, cs, None) \<Rightarrow>
             (case insertSiteVerification tbl r data of
                (cs', Inl err) \<Rightarrow>
                  \<lparr>Calls = cs @ cs', Diagnostics = [(''Error inserting site verification'', err)],
                   State = StateUntouched\<rparr>
              | (cs', Inr data) \<Rightarrow>
                  \<lparr>Calls = cs @ cs', Diagnostics = [], State = StateSet data\<rparr>))"

definition Read ::
    "SiteVerificationClients \<Rightarrow> SiteVerificationResourceModel
     \<Rightarrow> SiteVerificationResourceModel response" where
  "Read r data =
     (let dns = (if ValueString (SiteType data) = ''INET_DOMAIN'' then
                   (if ValueString (VerificationMethod data) = ''DNS_TXT'' then readDNSRecord r data
                    else ([], Inr data))
                 else ([], Inr data))
      in case dns of
           (cs, Inl err) \<Rightarrow>
             if Contains err ''404'' then
               \<lparr>Calls = cs, Diagnostics = [], State = StateRemoved\<rparr>
             else
               \<lparr>Calls = cs, Diagnostics = [(''Error reading DNS record'', err)],
                State = StateUntouched\<rparr>
         | (cs, Inr data) \<Rightarrow>
             (case readSiteVerification r data of
                (cs', Inl err) \<Rightarrow>
                  if Contains err ''404'' then
                    \<lparr>Calls = cs @ cs', Diagnostics = [], State = StateRemoved\<rparr>
                  else
                    \<lparr>Calls = cs @ cs',
                     Diagnostics = [(''Error reading site verification'', err)],
                     State = StateUntouched\<rparr>
              | (cs', Inr data) \<Rightarrow>
                  \<lparr>Calls = cs @ cs', Diagnostics = [], State = StateSet data\<rparr>))"

text \<open>
  \<open>Update\<close> adds the error of a failed patch and goes on to \<open>resp.State.Set\<close> with the
  model as the plan gave it.
\<close>

definition Update ::
    "SiteVerificationClients \<Rightarrow> SiteVerificationResourceModel
     \<Rightarrow> SiteVerificationResourceModel response" where
  "Update r plan =
     (let data = (if IsNull (SiteType plan) then plan\<lparr>SiteType := StringValue ''INET_DOMAIN''\<rparr>
                  else plan);
          data = (if IsNull (VerificationMethod data)
                  then data\<lparr>VerificationMethod := StringValue ''DNS_TXT''\<rparr> else data);
          dns = (if ValueString (SiteType data) = ''INET_DOMAIN'' then
                   (if ValueString (VerificationMethod data) = ''DNS_TXT'' then
                      (case deleteDNSRecord r data of
                         (cs, Some err) \<Rightarrow> (cs, Some (''Error deleting DNS record'', err))
                       | (cs, None) \<Rightarrow>
                           (case createDNSRecord r data of
                              (cs', Some err) \<Rightarrow>
                                (cs @ cs', Some (''Error updating DNS TXT record'', err))
                            | (cs', None) \<Rightarrow> (cs @ cs', None)))
                    else ([], None))
                 else ([], None))
      in case dns of
           (cs, Some d) \<Rightarrow> \<lparr>Calls = cs, Diagnostics = [d], State = StateUntouched\<rparr>
         | (cs, None) \<Rightarrow>
             (case patchSiteVerification r data of
                (cs', Inl err) \<Rightarrow>
                  \<lparr>Calls = cs @ cs', Diagnostics = [(''Error updating site verification'', err)],
                   State = StateSet data\<rparr>
              | (cs', Inr data) \<Rightarrow>
                  \<lparr>Calls = cs @ cs', Diagnostics = [], State = StateSet data\<rparr>))"

definition Delete ::
    "SiteVerificationClients \<Rightarrow> SiteVerificationResourceModel
     \<Rightarrow> SiteVerificationResourceModel response" where
  "Delete r data =
     (let dns = (if ValueString (SiteType data) = ''INET_DOMAIN'' then
                   (if ValueString (VerificationMethod data) = ''DNS_TXT'' then deleteDNSRecord r data
                    else ([], None))
                 else ([], None))
      in case dns of
           (cs, Some err) \<Rightarrow>
             \<lparr>Calls = cs, Diagnostics = [(''Error deleting DNS record'', err)],
              State = StateUntouched\<rparr>
         | (cs, None) \<Rightarrow>
             (case deleteSiteVerification r data of
                (cs', Some err) \<Rightarrow>
                  \<lparr>Calls = cs @ cs',
                   Diagnostics = [(''Error relinquishing site verification'', err)],
                   State = StateUntouched\<rparr>
              | (cs', None) \<Rightarrow>
                  \<lparr>Calls = cs @ cs', Diagnostics = [], State = StateUntouched\<rparr>))"

section \<open>Configuration of the provider\<close>

text \<open>The scope constants of the API packages.\<close>

definition SiteverificationScope :: string where
  "SiteverificationScope = ''https://www.googleapis.com/auth/siteverification''"

definition SiteverificationVerifyOnlyScope :: string where
  "SiteverificationVerifyOnlyScope = ''https://www.googleapis.com/auth/siteverification.verify_only''"

definition NdevClouddnsReadwriteScope :: string where
  "NdevClouddnsReadwriteScope = ''https://www.googleapis.com/auth/ndev.clouddns.readwrite''"

definition OpenIDScope :: string where
  "OpenIDScope = ''openid''"

definition impersonateServiceAccount ::
    "environment \<Rightarrow> Credentials \<Rightarrow> string \<Rightarrow> int \<Rightarrow> error + Credentials" where
  "impersonateServiceAccount env srcCreds serviceAccount durationSeconds =
     (case NewIamCredentialsClient env srcCreds of
        Some err \<Rightarrow> Inl (''failed to create credentials client: '' @ err)
      | None \<Rightarrow>
          (let req = \<lparr>GenerateAccessTokenRequest.Name =
                        ''projects/-/serviceAccounts/'' @ serviceAccount,
                      Scope = [SiteverificationScope, SiteverificationVerifyOnlyScope,
                               NdevClouddnsReadwriteScope],
                      Lifetime = durationSeconds\<rparr>
           in case GenerateAccessToken env srcCreds req of
                Inl err \<Rightarrow> Inl (''failed to generate access token for service account: '' @ err)
              | Inr accessToken \<Rightarrow> Inr \<lparr>Credentials.ProjectID = [], TokenSource = accessToken\<rparr>))"

text \<open>
  \<open>Configure\<close>, from the point where the configuration has been read into \<open>data\<close>.
  \<open>creds\<close> starts as the pointer \<open>defaultCreds\<close>; the two assignments of the project
  give both the same value, so the two are kept as two values here.
\<close>

definition Configure ::
    "(nat \<Rightarrow> bool) \<Rightarrow> environment \<Rightarrow> GoogleSiteVerificationProviderModel
     \<Rightarrow> diagnostic list \<times> SiteVerificationClients option" where
  "Configure tbl env data =
     (case FindDefaultCredentials env of
        Inl err \<Rightarrow> ([(''Failed to load default credentials'', err)], None)
      | Inr defaultCreds \<Rightarrow>
          (let (defaultOwner, impersonated) =
                 (if \<not> IsNull (ImpersonateServiceAccount data) then
                    (ValueString (ImpersonateServiceAccount data),
                     impersonateServiceAccount env defaultCreds
                       (ValueString (ImpersonateServiceAccount data))
                       (if \<not> Int64IsNull (TokenDuration data)
                        then ValueInt64 (TokenDuration data) else 3600))
                  else ([], Inr defaultCreds))
           in case impersonated of
                Inl err \<Rightarrow> ([(''Failed to build credentials'', err)], None)
              | Inr creds \<Rightarrow>
                  (let defaultCreds =
                         (if \<not> IsNull (GoogleSiteVerificationProviderModel.Project data)
                          then defaultCreds\<lparr>Credentials.ProjectID :=
                                 tf_String tbl (GoogleSiteVerificationProviderModel.Project data)\<rparr>
                          else defaultCreds);
                       creds =
                         (if \<not> IsNull (GoogleSiteVerificationProviderModel.Project data)
                          then creds\<lparr>Credentials.ProjectID :=
                                 tf_String tbl (GoogleSiteVerificationProviderModel.Project data)\<rparr>
                          else creds);
                       owner =
                         (if defaultOwner = [] then
                            (case oauthv2_NewService env creds [OpenIDScope] of
                               Some err \<Rightarrow> Inl (''Failed to create oauth2 client'', err)
                             | None \<Rightarrow>
                                 (case Tokeninfo env creds of
                                    Inl err \<Rightarrow> Inl (''Failed to get token info'', err)
                                  | Inr email \<Rightarrow> Inr email))
                          else Inr defaultOwner)
                   in case owner of
                        Inl d \<Rightarrow> ([d], None)
                      | Inr defaultOwner \<Rightarrow>
                          (case sitev1_NewService env creds
                                  [SiteverificationScope, SiteverificationVerifyOnlyScope] of
                             Inl err \<Rightarrow> ([(''Failed to create siteverification client'', err)], None)
                           | Inr siteverificationService \<Rightarrow>
                               (case dnsv2_NewService env defaultCreds [NdevClouddnsReadwriteScope] of
                                  Inl err \<Rightarrow> ([(''Failed to create dns client'', err)], None)
                                | Inr dnsservice \<Rightarrow>
                                    ([], Some \<lparr>ProjectID = Credentials.ProjectID creds,
                                               DefaultOwner = defaultOwner,
                                               SiteVerification = siteverificationService,
                                               DNS = dnsservice\<rparr>))))))"

section \<open>Sample services and models\<close>

text \<open>
  Services that answer every call (the DNS service gives back the record it is asked
  to create, and holds one TXT value, in quotes), services that fail every call with a
  given error, and a plan and a state of the resource.
\<close>

definition dns_up :: dns_service where
  "dns_up =
     \<lparr>ResourceRecordSets_Create = (\<lambda>project location zone rrset. Inr rrset),
      ResourceRecordSets_Get = (\<lambda>project location zone name type.
         Inr \<lparr>ResourceRecordSet.Name = name, Rrdatas = [[CHR 0x22] @ ''abc'' @ [CHR 0x22]],
              Ttl = 60, Type = type\<rparr>),
      ResourceRecordSets_Delete = (\<lambda>project location zone name type. None)\<rparr>"

text \<open>The DNS service that answers every call and holds the given TXT values.\<close>

definition dns_holding :: "string list \<Rightarrow> dns_service" where
  "dns_holding vals =
     \<lparr>ResourceRecordSets_Create = (\<lambda>project location zone rrset. Inr rrset),
      ResourceRecordSets_Get = (\<lambda>project location zone name type.
         Inr \<lparr>ResourceRecordSet.Name = name, Rrdatas = vals, Ttl = 60, Type = type\<rparr>),
      ResourceRecordSets_Delete = (\<lambda>project location zone name type. None)\<rparr>"

definition dns_failing :: "error \<Rightarrow> dns_service" where
  "dns_failing err =
     \<lparr>ResourceRecordSets_Create = (\<lambda>project location zone rrset. Inl err),
      ResourceRecordSets_Get = (\<lambda>project location zone name type. Inl err),
      ResourceRecordSets_Delete = (\<lambda>project location zone name type. Some err)\<rparr>"

definition sv_up :: sv_service where
  "sv_up =
     \<lparr>WebResource_GetToken = (\<lambda>greq. Inr \<lparr>GettokenResponse.Token = ''abc''\<rparr>),
      WebResource_Insert = (\<lambda>method greq.
         Inr \<lparr>Id = ''dns://example.com'',
              WebResourceResource.Owners = [''owner@example.com''], Site = Site greq\<rparr>),
      WebResource_Get = (\<lambda>ident.
         Inr \<lparr>Id = ident, WebResourceResource.Owners = [''owner@example.com''], Site = None\<rparr>),
      WebResource_Patch = (\<lambda>ident greq.
         Inr \<lparr>Id = ident, WebResourceResource.Owners = [''owner@example.com''], Site = None\<rparr>),
      WebResource_Delete = (\<lambda>ident. None)\<rparr>"

definition sv_failing :: "error \<Rightarrow> sv_service" where
  "sv_failing err =
     \<lparr>WebResource_GetToken = (\<lambda>greq. Inl err),
      WebResource_Insert = (\<lambda>method greq. Inl err),
      WebResource_Get = (\<lambda>ident. Inl err),
      WebResource_Patch = (\<lambda>ident greq. Inl err),
      WebResource_Delete = (\<lambda>ident. Some err)\<rparr>"

definition sample_clients :: "dns_service \<Rightarrow> sv_service \<Rightarrow> SiteVerificationClients" where
  "sample_clients dns sv =
     \<lparr>ProjectID = ''my-project'', DefaultOwner = ''owner@example.com'',
      SiteVerification = sv, DNS = dns\<rparr>"

definition sample_plan :: SiteVerificationResourceModel where
  "sample_plan =
     \<lparr>Project = StringNull, VerificationMethod = StringNull,
      SiteIdentifier = StringValue ''example.com'', SiteType = StringNull,
      Token = StringValue ''abc'', ManagedZone = StringValue ''zone'',
      Owners = ListValue [StringValue ''admin@example.com''], ID = StringUnknown\<rparr>"

definition sample_state :: SiteVerificationResourceModel where
  "sample_state =
     \<lparr>Project = StringValue ''my-project'', VerificationMethod = StringValue ''DNS_TXT'',
      SiteIdentifier = StringValue ''example.com'', SiteType = StringValue ''INET_DOMAIN'',
      Token = StringValue ''abc'', ManagedZone = StringValue ''zone'',
      Owners = ListValue [StringValue ''owner@example.com''],
      ID = StringValue ''dns://example.com''\<rparr>"

definition not_found :: error where
  "not_found = ''googleapi: Error 404: not found''"

definition unavailable :: error where
  "unavailable = ''googleapi: Error 503: unavailable''"

text \<open>
  Surroundings of \<open>Configure\<close> in which every step succeeds, and a configuration that
  names a project.
\<close>

definition sample_env :: environment where
  "sample_env =
     \<lparr>FindDefaultCredentials = Inr \<lparr>Credentials.ProjectID = ''ambient'', TokenSource = ''adc''\<rparr>,
      NewIamCredentialsClient = (\<lambda>creds. None),
      GenerateAccessToken = (\<lambda>creds req. Inr ''token''),
      oauthv2_NewService = (\<lambda>creds scopes. None),
      Tokeninfo = (\<lambda>creds. Inr ''owner@example.com''),
      sitev1_NewService = (\<lambda>creds scopes. Inr sv_up),
      dnsv2_NewService = (\<lambda>creds scopes. Inr dns_up)\<rparr>"

definition sample_config :: GoogleSiteVerificationProviderModel where
  "sample_config =
     \<lparr>GoogleSiteVerificationProviderModel.Project = StringValue ''my-project'',
      ImpersonateServiceAccount = StringNull, TokenDuration = Int64Null\<rparr>"

text \<open>The clients that \<open>Configure\<close> builds from \<open>sample_env\<close> and \<open>sample_config\<close>.\<close>

definition sample_configured :: SiteVerificationClients where
  "sample_configured =
     \<lparr>ProjectID = [CHR 0x22] @ ''my-project'' @ [CHR 0x22],
      DefaultOwner = ''owner@example.com'', SiteVerification = sv_up, DNS = dns_up\<rparr>"

section \<open>Properties\<close>

subsection \<open>The helpers\<close>

lemma elemsToStrings_known: "elemsToStrings (map StringValue os) = Inr os"
  by (induction os) (simp_all add: elemToString_def)

lemma createDNSRecord_calls:
  "fst (createDNSRecord r data) =
     [DNS_Create (ValueString (Project data)) ''global'' (ValueString (ManagedZone data))
        \<lparr>ResourceRecordSet.Name = forceDot (ValueString (SiteIdentifier data)),
         Rrdatas = [ValueString (Token data)], Ttl = 60, Type = ''TXT''\<rparr>]"
  by (simp add: createDNSRecord_def Let_def)

lemma createDNSRecord_error:
  "snd (createDNSRecord r data) =
     (case ResourceRecordSets_Create (DNS r) (ValueString (Project data)) ''global''
             (ValueString (ManagedZone data))
             \<lparr>ResourceRecordSet.Name = forceDot (ValueString (SiteIdentifier data)),
              Rrdatas = [ValueString (Token data)], Ttl = 60, Type = ''TXT''\<rparr> of
        Inl err \<Rightarrow> Some err | Inr gresp \<Rightarrow> None)"
  by (simp add: createDNSRecord_def Let_def)

lemma deleteDNSRecord_calls:
  "fst (deleteDNSRecord r data) =
     [DNS_Delete (ValueString (Project data)) ''global'' (ValueString (ManagedZone data))
        (ValueString (SiteIdentifier data)) ''TXT'']"
  by (simp add: deleteDNSRecord_def)

lemma buildSiteVerification_owners:
  assumes "buildSiteVerification data includeSite = Inr greq"
  shows "elemsToStrings (Elements (Owners data)) = Inr (WebResourceResource.Owners greq)"
proof (cases "ListIsNull (Owners data)")
  case True
  then have "Owners data = ListNull"
    by (cases "Owners data") simp_all
  with assms show ?thesis
    by (auto simp: buildSiteVerification_def Let_def)
next
  case False
  with assms show ?thesis
    by (auto simp: buildSiteVerification_def parseOwnersFromData_def listValueToStringSlice_def
          Let_def split: sum.splits if_splits)
qed

lemma insertSiteVerification_calls:
  "fst (insertSiteVerification tbl r data) = [] \<or>
   (\<exists>greq. fst (insertSiteVerification tbl r data)
            = [SV_Insert (ValueString (VerificationMethod data)) greq])"
  by (simp add: insertSiteVerification_def split: sum.splits)

lemma insertSiteVerification_success:
  assumes "insertSiteVerification tbl r data = (cs, Inr data')"
  shows "\<exists>greq callResp.
           cs = [SV_Insert (ValueString (VerificationMethod data)) greq]
           \<and> WebResource_Insert (SiteVerification r) (ValueString (VerificationMethod data)) greq
               = Inr callResp
           \<and> Owners data' = ListValue (map StringValue (WebResourceResource.Owners callResp))"
  using assms
  by (auto simp: insertSiteVerification_def parseOwnersFromResponse_def Let_def split: sum.splits)

lemma insertSiteVerification_no_dns:
  "DNS_Create p l z rrset \<notin> set (fst (insertSiteVerification tbl r data))"
  using insertSiteVerification_calls [of tbl r data] by auto

lemma patchSiteVerification_calls:
  "fst (patchSiteVerification r data) = [] \<or>
   (\<exists>greq. fst (patchSiteVerification r data) = [SV_Patch (SiteID data) greq])"
  by (simp add: patchSiteVerification_def split: sum.splits)

lemma patchSiteVerification_success:
  assumes "patchSiteVerification r data = (cs, Inr data')"
  shows "\<exists>greq. cs = [SV_Patch (SiteID data) greq]
           \<and> buildSiteVerification data False = Inr greq
           \<and> Owners data' = ListValue (map StringValue (WebResourceResource.Owners greq))"
  using assms
  by (auto simp: patchSiteVerification_def stringSliceToListValue_def split: sum.splits)

lemma patchSiteVerification_no_dns:
  "DNS_Create p l z rrset \<notin> set (fst (patchSiteVerification r data))"
  using patchSiteVerification_calls [of r data] by auto

subsection \<open>The operations, unfolded\<close>

lemma Create_unfold:
  assumes "d1 = (if IsNull (SiteType plan) then plan\<lparr>SiteType := StringValue ''INET_DOMAIN''\<rparr>
                 else plan)"
    and "d2 = (if IsNull (VerificationMethod d1)
               then d1\<lparr>VerificationMethod := StringValue ''DNS_TXT''\<rparr> else d1)"
    and "d3 = (if IsNull (Project d2) then d2\<lparr>Project := StringValue (ProjectID r)\<rparr> else d2)"
    and "dns = (if ValueString (SiteType d2) = ''INET_DOMAIN'' then
                  (if ValueString (VerificationMethod d2) = ''DNS_TXT''
                   then (d3, createDNSRecord r d3)
                   else (d2, [], None))
                else (d2, [], None))"
  shows "Create tbl r plan =
     (case dns of
        (data, cs, Some err) \<Rightarrow>
          \<lparr>Calls = cs, Diagnostics = [(''Error creating DNS record'', err)],
           State = StateUntouched\<rparr>
      | (data, cs, None) \<Rightarrow>
          (case insertSiteVerification tbl r data of
             (cs', Inl err) \<Rightarrow>
               \<lparr>Calls = cs @ cs', Diagnostics = [(''Error inserting site verification'', err)],
                State = StateUntouched\<rparr>
           | (cs', Inr data) \<Rightarrow>
               \<lparr>Calls = cs @ cs', Diagnostics = [], State = StateSet data\<rparr>))"
  unfolding assms Create_def Let_def ..

lemma Update_unfold:
  assumes "d1 = (if IsNull (SiteType plan) then plan\<lparr>SiteType := StringValue ''INET_DOMAIN''\<rparr>
                 else plan)"
    and "d2 = (if IsNull (VerificationMethod d1)
               then d1\<lparr>VerificationMethod := StringValue ''DNS_TXT''\<rparr> else d1)"
    and "dns = (if ValueString (SiteType d2) = ''INET_DOMAIN'' then
                  (if ValueString (VerificationMethod d2) = ''DNS_TXT'' then
                     (case deleteDNSRecord r d2 of
                        (cs, Some err) \<Rightarrow> (cs, Some (''Error deleting DNS record'', err))
                      | (cs, None) \<Rightarrow>
                          (case createDNSRecord r d2 of
                             (cs', Some err) \<Rightarrow>
                               (cs @ cs', Some (''Error updating DNS TXT record'', err))
                           | (cs', None) \<Rightarrow> (cs @ cs', None)))
                   else ([], None))
                else ([], None))"
  shows "Update r plan =
     (case dns of
        (cs, Some d) \<Rightarrow> \<lparr>Calls = cs, Diagnostics = [d], State = StateUntouched\<rparr>
      | (cs, None) \<Rightarrow>
          (case patchSiteVerification r d2 of
             (cs', Inl err) \<Rightarrow>
               \<lparr>Calls = cs @ cs', Diagnostics = [(''Error updating site verification'', err)],
                State = StateSet d2\<rparr>
           | (cs', Inr data) \<Rightarrow>
               \<lparr>Calls = cs @ cs', Diagnostics = [], State = StateSet data\<rparr>))"
  unfolding assms Update_def Let_def ..

lemma defaults_keep:
  assumes "d1 = (if IsNull (SiteType plan) then plan\<lparr>SiteType := StringValue ''INET_DOMAIN''\<rparr>
                 else plan)"
    and "d2 = (if IsNull (VerificationMethod d1)
               then d1\<lparr>VerificationMethod := StringValue ''DNS_TXT''\<rparr> else d1)"
    and "d3 = (if IsNull (Project d2) then d2\<lparr>Project := StringValue (ProjectID r)\<rparr> else d2)"
  shows "SiteIdentifier d2 = SiteIdentifier plan" "Token d2 = Token plan"
    "Owners d2 = Owners plan" "ManagedZone d2 = ManagedZone plan" "Project d2 = Project plan"
    "SiteIdentifier d3 = SiteIdentifier plan" "Token d3 = Token plan"
    "Owners d3 = Owners plan" "ManagedZone d3 = ManagedZone plan"
  by (simp_all add: assms)

lemma Create_record:
  assumes "DNS_Create p l z rrset \<in> set (Calls (Create tbl r plan))"
  shows "rrset = \<lparr>ResourceRecordSet.Name = forceDot (ValueString (SiteIdentifier plan)),
                  Rrdatas = [ValueString (Token plan)], Ttl = 60, Type = ''TXT''\<rparr>"
proof -
  define d1 where
    "d1 = (if IsNull (SiteType plan) then plan\<lparr>SiteType := StringValue ''INET_DOMAIN''\<rparr> else plan)"
  define d2 where
    "d2 = (if IsNull (VerificationMethod d1)
           then d1\<lparr>VerificationMethod := StringValue ''DNS_TXT''\<rparr> else d1)"
  define d3 where
    "d3 = (if IsNull (Project d2) then d2\<lparr>Project := StringValue (ProjectID r)\<rparr> else d2)"
  define dns where
    "dns = (if ValueString (SiteType d2) = ''INET_DOMAIN'' then
              (if ValueString (VerificationMethod d2) = ''DNS_TXT''
               then (d3, createDNSRecord r d3)
               else (d2, [], None))
            else (d2, [], None))"
  note C = Create_unfold [OF d1_def d2_def d3_def dns_def, of tbl]
  note keep = defaults_keep [OF d1_def d2_def d3_def]
  obtain data cs e where dns: "dns = (data, cs, e)"
    by (cases dns) auto
  obtain cs' res where ins: "insertSiteVerification tbl r data = (cs', res)"
    by (cases "insertSiteVerification tbl r data") auto
  have "cs = [] \<or> cs = fst (createDNSRecord r d3)"
    using dns by (auto simp: dns_def split: if_splits)
  moreover have "DNS_Create p l z rrset \<notin> set cs'"
    using insertSiteVerification_no_dns [of p l z rrset tbl r data] by (simp add: ins)
  moreover have "DNS_Create p l z rrset \<in> set cs \<union> set cs'"
    using assms by (cases e; cases res) (auto simp: C dns ins)
  ultimately have "DNS_Create p l z rrset \<in> set (fst (createDNSRecord r d3))"
    by auto
  then show ?thesis
    by (simp add: createDNSRecord_calls keep)
qed

lemma Update_record:
  assumes "DNS_Create p l z rrset \<in> set (Calls (Update r plan))"
  shows "rrset = \<lparr>ResourceRecordSet.Name = forceDot (ValueString (SiteIdentifier plan)),
                  Rrdatas = [ValueString (Token plan)], Ttl = 60, Type = ''TXT''\<rparr>"
proof -
  define d1 where
    "d1 = (if IsNull (SiteType plan) then plan\<lparr>SiteType := StringValue ''INET_DOMAIN''\<rparr> else plan)"
  define d2 where
    "d2 = (if IsNull (VerificationMethod d1)
           then d1\<lparr>VerificationMethod := StringValue ''DNS_TXT''\<rparr> else d1)"
  define d3 where
    "d3 = (if IsNull (Project d2) then d2\<lparr>Project := StringValue (ProjectID r)\<rparr> else d2)"
  define dns where
    "dns = (if ValueString (SiteType d2) = ''INET_DOMAIN'' then
              (if ValueString (VerificationMethod d2) = ''DNS_TXT'' then
                 (case deleteDNSRecord r d2 of
                    (cs, Some err) \<Rightarrow> (cs, Some (''Error deleting DNS record'', err))
                  | (cs, None) \<Rightarrow>
                      (case createDNSRecord r d2 of
                         (cs', Some err) \<Rightarrow>
                           (cs @ cs', Some (''Error updating DNS TXT record'', err))
                       | (cs', None) \<Rightarrow> (cs @ cs', None)))
               else ([], None))
            else ([], None))"
  note U = Update_unfold [OF d1_def d2_def dns_def]
  note keep = defaults_keep [OF d1_def d2_def d3_def]
  obtain cs e where dns: "dns = (cs, e)"
    by (cases dns) auto
  obtain cs' res where pat: "patchSiteVerification r d2 = (cs', res)"
    by (cases "patchSiteVerification r d2") auto
  have "set cs \<subseteq> set (fst (deleteDNSRecord r d2)) \<union> set (fst (createDNSRecord r d2))"
    using dns by (auto simp: dns_def split: if_splits prod.splits option.splits)
  moreover have "DNS_Create p l z rrset \<notin> set cs'"
    using patchSiteVerification_no_dns [of p l z rrset r d2] by (simp add: pat)
  moreover have "DNS_Create p l z rrset \<in> set cs \<union> set cs'"
    using assms by (cases e; cases res) (auto simp: U dns pat)
  moreover have "DNS_Create p l z rrset \<notin> set (fst (deleteDNSRecord r d2))"
    by (simp add: deleteDNSRecord_calls)
  ultimately have "DNS_Create p l z rrset \<in> set (fst (createDNSRecord r d2))"
    by auto
  then show ?thesis
    by (simp add: createDNSRecord_calls keep)
qed

lemma Create_dns_txt_calls:
  assumes "IsNull (SiteType plan) \<or> ValueString (SiteType plan) = ''INET_DOMAIN''"
    and "IsNull (VerificationMethod plan) \<or> ValueString (VerificationMethod plan) = ''DNS_TXT''"
  shows "let project = (if IsNull (Project plan) then ProjectID r else ValueString (Project plan));
             zone = ValueString (ManagedZone plan);
             rrset = \<lparr>ResourceRecordSet.Name = forceDot (ValueString (SiteIdentifier plan)),
                      Rrdatas = [ValueString (Token plan)], Ttl = 60, Type = ''TXT''\<rparr>;
             dnsWrite = DNS_Create project ''global'' zone rrset;
             resp = Create tbl r plan
         in take 1 (Calls resp) = [dnsWrite]
            \<and> (\<forall>err. ResourceRecordSets_Create (DNS r) project ''global'' zone rrset = Inl err \<longrightarrow>
                   Calls resp = [dnsWrite]
                   \<and> Diagnostics resp = [(''Error creating DNS record'', err)]
                   \<and> State resp = StateUntouched)
            \<and> (\<forall>m greq. SV_Insert m greq \<in> set (Calls resp) \<longrightarrow>
                   Calls resp = [dnsWrite, SV_Insert m greq]
                   \<and> (\<exists>gresp. ResourceRecordSets_Create (DNS r) project ''global'' zone rrset
                                = Inr gresp))"
proof -
  define d1 where
    "d1 = (if IsNull (SiteType plan) then plan\<lparr>SiteType := StringValue ''INET_DOMAIN''\<rparr> else plan)"
  define d2 where
    "d2 = (if IsNull (VerificationMethod d1)
           then d1\<lparr>VerificationMethod := StringValue ''DNS_TXT''\<rparr> else d1)"
  define d3 where
    "d3 = (if IsNull (Project d2) then d2\<lparr>Project := StringValue (ProjectID r)\<rparr> else d2)"
  define dns where
    "dns = (if ValueString (SiteType d2) = ''INET_DOMAIN'' then
              (if ValueString (VerificationMethod d2) = ''DNS_TXT''
               then (d3, createDNSRecord r d3)
               else (d2, [], None))
            else (d2, [], None))"
  define project where
    "project = (if IsNull (Project plan) then ProjectID r else ValueString (Project plan))"
  define zone where "zone = ValueString (ManagedZone plan)"
  define rrset where
    "rrset = \<lparr>ResourceRecordSet.Name = forceDot (ValueString (SiteIdentifier plan)),
              Rrdatas = [ValueString (Token plan)], Ttl = 60, Type = ''TXT''\<rparr>"
  define dnsWrite where "dnsWrite = DNS_Create project ''global'' zone rrset"
  note keep = defaults_keep [OF d1_def d2_def d3_def]
  have t: "ValueString (SiteType d2) = ''INET_DOMAIN''"
    using assms(1) by (cases "SiteType plan") (simp_all add: d1_def d2_def)
  have m: "ValueString (VerificationMethod d2) = ''DNS_TXT''"
    using assms(2) by (cases "VerificationMethod plan") (simp_all add: d1_def d2_def)
  have dns: "dns = (d3, createDNSRecord r d3)"
    by (simp add: dns_def t m)
  have p: "ValueString (Project d3) = project"
    by (simp add: d3_def keep(5) project_def)
  have c: "fst (createDNSRecord r d3) = [dnsWrite]"
    unfolding createDNSRecord_calls p keep by (simp add: dnsWrite_def zone_def rrset_def)
  have e: "snd (createDNSRecord r d3) =
             (case ResourceRecordSets_Create (DNS r) project ''global'' zone rrset of
                Inl err \<Rightarrow> Some err | Inr gresp \<Rightarrow> None)"
    unfolding createDNSRecord_error p keep by (simp add: zone_def rrset_def)
  obtain cs' res where ins: "insertSiteVerification tbl r d3 = (cs', res)"
    by (cases "insertSiteVerification tbl r d3") auto
  have cs': "cs' = [] \<or> (\<exists>greq. cs' = [SV_Insert (ValueString (VerificationMethod d3)) greq])"
    using insertSiteVerification_calls [of tbl r d3] by (simp add: ins)
  have C: "Create tbl r plan =
     (case snd (createDNSRecord r d3) of
        Some err \<Rightarrow>
          \<lparr>Calls = [dnsWrite], Diagnostics = [(''Error creating DNS record'', err)],
           State = StateUntouched\<rparr>
      | None \<Rightarrow>
          (case res of
             Inl err \<Rightarrow>
               \<lparr>Calls = dnsWrite # cs',
                Diagnostics = [(''Error inserting site verification'', err)],
                State = StateUntouched\<rparr>
           | Inr data' \<Rightarrow>
               \<lparr>Calls = dnsWrite # cs', Diagnostics = [], State = StateSet data'\<rparr>))"
    using c
    by (cases "createDNSRecord r d3")
       (simp add: Create_unfold [OF d1_def d2_def d3_def dns_def] dns ins
          split: option.splits sum.splits)
  have calls: "Calls (Create tbl r plan) = [dnsWrite] \<or>
               (snd (createDNSRecord r d3) = None \<and> Calls (Create tbl r plan) = dnsWrite # cs')"
    unfolding C by (simp split: option.splits sum.splits)
  have first: "take 1 (Calls (Create tbl r plan)) = [dnsWrite]"
    using calls by auto
  have failed: "Calls (Create tbl r plan) = [dnsWrite]
                \<and> Diagnostics (Create tbl r plan) = [(''Error creating DNS record'', err)]
                \<and> State (Create tbl r plan) = StateUntouched"
    if "ResourceRecordSets_Create (DNS r) project ''global'' zone rrset = Inl err" for err
    unfolding C e using that by simp
  have inserted: "Calls (Create tbl r plan) = [dnsWrite, SV_Insert m greq]
                  \<and> (\<exists>gresp. ResourceRecordSets_Create (DNS r) project ''global'' zone rrset
                               = Inr gresp)"
    if "SV_Insert m greq \<in> set (Calls (Create tbl r plan))" for m greq
  proof -
    from calls that have n: "snd (createDNSRecord r d3) = None"
      and cs: "Calls (Create tbl r plan) = dnsWrite # cs'"
      by (auto simp: dnsWrite_def)
    from that cs have "SV_Insert m greq \<in> set cs'"
      by (simp add: dnsWrite_def)
    with cs' have "cs' = [SV_Insert m greq]"
      by auto
    moreover from n
    have "\<exists>gresp. ResourceRecordSets_Create (DNS r) project ''global'' zone rrset = Inr gresp"
      unfolding e by (simp split: sum.splits)
    ultimately show ?thesis
      using cs by simp
  qed
  show ?thesis
    unfolding Let_def
    using first failed inserted
    by (simp only: project_def zone_def rrset_def dnsWrite_def) blast
qed

lemma Read_unfold:
  assumes "dns = (if ValueString (SiteType data) = ''INET_DOMAIN'' then
                    (if ValueString (VerificationMethod data) = ''DNS_TXT''
                     then readDNSRecord r data
                     else ([], Inr data))
                  else ([], Inr data))"
  shows "Read r data =
     (case dns of
        (cs, Inl err) \<Rightarrow>
          if Contains err ''404'' then
            \<lparr>Calls = cs, Diagnostics = [], State = StateRemoved\<rparr>
          else
            \<lparr>Calls = cs, Diagnostics = [(''Error reading DNS record'', err)],
             State = StateUntouched\<rparr>
      | (cs, Inr data) \<Rightarrow>
          (case readSiteVerification r data of
             (cs', Inl err) \<Rightarrow>
               if Contains err ''404'' then
                 \<lparr>Calls = cs @ cs', Diagnostics = [], State = StateRemoved\<rparr>
               else
                 \<lparr>Calls = cs @ cs',
                  Diagnostics = [(''Error reading site verification'', err)],
                  State = StateUntouched\<rparr>
           | (cs', Inr data) \<Rightarrow>
               \<lparr>Calls = cs @ cs', Diagnostics = [], State = StateSet data\<rparr>))"
  unfolding assms Read_def Let_def ..

lemma Delete_unfold:
  assumes "dns = (if ValueString (SiteType data) = ''INET_DOMAIN'' then
                    (if ValueString (VerificationMethod data) = ''DNS_TXT''
                     then deleteDNSRecord r data
                     else ([], None))
                  else ([], None))"
  shows "Delete r data =
     (case dns of
        (cs, Some err) \<Rightarrow>
          \<lparr>Calls = cs, Diagnostics = [(''Error deleting DNS record'', err)],
           State = StateUntouched\<rparr>
      | (cs, None) \<Rightarrow>
          (case deleteSiteVerification r data of
             (cs', Some err) \<Rightarrow>
               \<lparr>Calls = cs @ cs',
                Diagnostics = [(''Error relinquishing site verification'', err)],
                State = StateUntouched\<rparr>
           | (cs', None) \<Rightarrow>
               \<lparr>Calls = cs @ cs', Diagnostics = [], State = StateUntouched\<rparr>))"
  unfolding assms Delete_def Let_def ..

lemma createDNSRecord_project:
  "c \<in> set (fst (createDNSRecord r data)) \<Longrightarrow> dnsProject c = Some (ValueString (Project data))"
  by (simp add: createDNSRecord_calls)

lemma deleteDNSRecord_project:
  "c \<in> set (fst (deleteDNSRecord r data)) \<Longrightarrow> dnsProject c = Some (ValueString (Project data))"
  by (simp add: deleteDNSRecord_calls)

lemma readDNSRecord_project:
  "c \<in> set (fst (readDNSRecord r data)) \<Longrightarrow> dnsProject c = Some (ValueString (Project data))"
  by (simp add: readDNSRecord_def)

lemma insertSiteVerification_project:
  "c \<in> set (fst (insertSiteVerification tbl r data)) \<Longrightarrow> dnsProject c = None"
  using insertSiteVerification_calls [of tbl r data] by auto

lemma patchSiteVerification_project:
  "c \<in> set (fst (patchSiteVerification r data)) \<Longrightarrow> dnsProject c = None"
  using patchSiteVerification_calls [of r data] by auto

lemma readSiteVerification_project:
  "c \<in> set (fst (readSiteVerification r data)) \<Longrightarrow> dnsProject c = None"
  by (simp add: readSiteVerification_def)

lemma deleteSiteVerification_project:
  "c \<in> set (fst (deleteSiteVerification r data)) \<Longrightarrow> dnsProject c = None"
  by (simp add: deleteSiteVerification_def)

lemma Read_project:
  assumes "c \<in> set (Calls (Read r data))"
  shows "dnsProject c = None \<or> dnsProject c = Some (ValueString (Project data))"
proof -
  define dns where
    "dns = (if ValueString (SiteType data) = ''INET_DOMAIN'' then
              (if ValueString (VerificationMethod data) = ''DNS_TXT''
               then readDNSRecord r data
               else ([], Inr data))
            else ([], Inr data))"
  note R = Read_unfold [OF dns_def]
  obtain cs res where dns: "dns = (cs, res)"
    by (cases dns) auto
  have cs: "cs = [] \<or> cs = fst (readDNSRecord r data)"
    using dns by (auto simp: dns_def split: if_splits)
  show ?thesis
  proof (cases res)
    case (Inl err)
    with assms have "c \<in> set cs"
      by (simp add: R dns split: if_splits)
    with cs readDNSRecord_project [of c r data] show ?thesis
      by auto
  next
    case (Inr data')
    obtain cs' res' where rd: "readSiteVerification r data' = (cs', res')"
      by (cases "readSiteVerification r data'") auto
    from assms Inr have "c \<in> set cs \<union> set cs'"
      by (cases res') (auto simp: R dns rd split: if_splits)
    moreover have "dnsProject c = None" if "c \<in> set cs'"
      using readSiteVerification_project [of c r data'] that by (simp add: rd)
    ultimately show ?thesis
      using cs readDNSRecord_project [of c r data] by auto
  qed
qed

lemma Delete_project:
  assumes "c \<in> set (Calls (Delete r data))"
  shows "dnsProject c = None \<or> dnsProject c = Some (ValueString (Project data))"
proof -
  define dns where
    "dns = (if ValueString (SiteType data) = ''INET_DOMAIN'' then
              (if ValueString (VerificationMethod data) = ''DNS_TXT''
               then deleteDNSRecord r data
               else ([], None))
            else ([], None))"
  note D = Delete_unfold [OF dns_def]
  obtain cs e where dns: "dns = (cs, e)"
    by (cases dns) auto
  obtain cs' e' where dv: "deleteSiteVerification r data = (cs', e')"
    by (cases "deleteSiteVerification r data") auto
  have cs: "cs = [] \<or> cs = fst (deleteDNSRecord r data)"
    using dns by (auto simp: dns_def split: if_splits)
  from assms have "c \<in> set cs \<union> set cs'"
    by (cases e; cases e') (auto simp: D dns dv)
  moreover have "dnsProject c = None" if "c \<in> set cs'"
    using deleteSiteVerification_project [of c r data] that by (simp add: dv)
  ultimately show ?thesis
    using cs deleteDNSRecord_project [of c r data] by auto
qed

lemma Update_project:
  assumes "c \<in> set (Calls (Update r plan))"
  shows "dnsProject c = None \<or> dnsProject c = Some (ValueString (Project plan))"
proof -
  define d1 where
    "d1 = (if IsNull (SiteType plan) then plan\<lparr>SiteType := StringValue ''INET_DOMAIN''\<rparr> else plan)"
  define d2 where
    "d2 = (if IsNull (VerificationMethod d1)
           then d1\<lparr>VerificationMethod := StringValue ''DNS_TXT''\<rparr> else d1)"
  define d3 where
    "d3 = (if IsNull (Project d2) then d2\<lparr>Project := StringValue (ProjectID r)\<rparr> else d2)"
  define dns where
    "dns = (if ValueString (SiteType d2) = ''INET_DOMAIN'' then
              (if ValueString (VerificationMethod d2) = ''DNS_TXT'' then
                 (case deleteDNSRecord r d2 of
                    (cs, Some err) \<Rightarrow> (cs, Some (''Error deleting DNS record'', err))
                  | (cs, None) \<Rightarrow>
                      (case createDNSRecord r d2 of
                         (cs', Some err) \<Rightarrow>
                           (cs @ cs', Some (''Error updating DNS TXT record'', err))
                       | (cs', None) \<Rightarrow> (cs @ cs', None)))
               else ([], None))
            else ([], None))"
  note U = Update_unfold [OF d1_def d2_def dns_def]
  note keep = defaults_keep [OF d1_def d2_def d3_def]
  obtain cs e where dns: "dns = (cs, e)"
    by (cases dns) auto
  obtain cs' res where pat: "patchSiteVerification r d2 = (cs', res)"
    by (cases "patchSiteVerification r d2") auto
  have "set cs \<subseteq> set (fst (deleteDNSRecord r d2)) \<union> set (fst (createDNSRecord r d2))"
    using dns by (auto simp: dns_def split: if_splits prod.splits option.splits)
  moreover have "c \<in> set cs \<union> set cs'"
    using assms by (cases e; cases res) (auto simp: U dns pat)
  moreover have "dnsProject c = None" if "c \<in> set cs'"
    using patchSiteVerification_project [of c r d2] that by (simp add: pat)
  ultimately show ?thesis
    using deleteDNSRecord_project [of c r d2] createDNSRecord_project [of c r d2]
    by (auto simp: keep)
qed

lemma Create_project:
  assumes "c \<in> set (Calls (Create tbl r plan))"
  shows "dnsProject c = None
         \<or> dnsProject c = Some (if IsNull (Project plan) then ProjectID r
                                 else ValueString (Project plan))"
proof -
  define d1 where
    "d1 = (if IsNull (SiteType plan) then plan\<lparr>SiteType := StringValue ''INET_DOMAIN''\<rparr> else plan)"
  define d2 where
    "d2 = (if IsNull (VerificationMethod d1)
           then d1\<lparr>VerificationMethod := StringValue ''DNS_TXT''\<rparr> else d1)"
  define d3 where
    "d3 = (if IsNull (Project d2) then d2\<lparr>Project := StringValue (ProjectID r)\<rparr> else d2)"
  define dns where
    "dns = (if ValueString (SiteType d2) = ''INET_DOMAIN'' then
              (if ValueString (VerificationMethod d2) = ''DNS_TXT''
               then (d3, createDNSRecord r d3)
               else (d2, [], None))
            else (d2, [], None))"
  note C = Create_unfold [OF d1_def d2_def d3_def dns_def, of tbl]
  note keep = defaults_keep [OF d1_def d2_def d3_def]
  obtain data cs e where dns: "dns = (data, cs, e)"
    by (cases dns) auto
  obtain cs' res where ins: "insertSiteVerification tbl r data = (cs', res)"
    by (cases "insertSiteVerification tbl r data") auto
  have p: "ValueString (Project d3)
           = (if IsNull (Project plan) then ProjectID r else ValueString (Project plan))"
    by (simp add: d3_def keep(5))
  have "cs = [] \<or> cs = fst (createDNSRecord r d3)"
    using dns by (auto simp: dns_def split: if_splits)
  moreover have "c \<in> set cs \<union> set cs'"
    using assms by (cases e; cases res) (auto simp: C dns ins)
  moreover have "dnsProject c = None" if "c \<in> set cs'"
    using insertSiteVerification_project [of c tbl r data] that by (simp add: ins)
  ultimately show ?thesis
    using createDNSRecord_project [of c r d3] by (auto simp: p)
qed

lemma Configure_ProjectID:
  assumes "Configure tbl env data = (ds, Some clients)"
    and "\<not> IsNull (GoogleSiteVerificationProviderModel.Project data)"
  shows "ProjectID clients = tf_String tbl (GoogleSiteVerificationProviderModel.Project data)"
  using assms
  by (auto simp: Configure_def Let_def split: sum.splits option.splits prod.splits if_splits)

subsection \<open>Quoting\<close>

lemma mod_shift:
  fixes n :: nat
  assumes "k * m \<le> n" "n < k * m + m"
  shows "n mod m = n - k * m"
proof -
  have "n = (n - k * m) + k * m"
    using assms by simp
  then have "n mod m = ((n - k * m) + k * m) mod m"
    by simp
  also have "\<dots> = (n - k * m) mod m"
    by simp
  also have "\<dots> = n - k * m"
    using assms by simp
  finally show ?thesis .
qed

lemma lead2: "0xC2 \<le> (n::nat) \<Longrightarrow> n < 0xE0 \<Longrightarrow> 2 \<le> n mod 32"
  using mod_shift [of 6 32 n] by simp

lemma lead3: "0xE0 < (n::nat) \<Longrightarrow> n < 0xF0 \<Longrightarrow> 1 \<le> n mod 16"
  using mod_shift [of 14 16 n] by simp

lemma lead4: "0xF0 < (n::nat) \<Longrightarrow> n \<le> 0xF4 \<Longrightarrow> 1 \<le> n mod 8"
  using mod_shift [of 30 8 n] by simp

lemma second3: "0xA0 \<le> (n::nat) \<Longrightarrow> n \<le> 0xBF \<Longrightarrow> 32 \<le> n mod 64"
  using mod_shift [of 2 64 n] by simp

lemma second4: "0x90 \<le> (n::nat) \<Longrightarrow> n \<le> 0xBF \<Longrightarrow> 16 \<le> n mod 64"
  using mod_shift [of 2 64 n] by simp

lemma DecodeRuneInString_width:
  assumes "DecodeRuneInString (c # rest) = (r, w)" and "0x80 \<le> (of_char c :: nat)"
  shows "(w = 1 \<and> r = RuneError)
         \<or> (2 \<le> w \<and> w \<le> 4 \<and> w \<le> Suc (length rest) \<and> 0x80 \<le> r)"
proof -
  define s0 where "s0 = (of_char c :: nat)"
  define s1 where "s1 = (of_char (rest ! 0) :: nat)"
  define s2 where "s2 = (of_char (rest ! 1) :: nat)"
  define s3 where "s3 = (of_char (rest ! 2) :: nat)"
  define r2 where "r2 = (s0 mod 32) * 64 + s1 mod 64"
  define r3 where "r3 = (s0 mod 16) * 4096 + (s1 mod 64) * 64 + s2 mod 64"
  define r4 where "r4 = (s0 mod 8) * 262144 + (s1 mod 64) * 4096 + (s2 mod 64) * 64 + s3 mod 64"
  note defs = s0_def [symmetric] s1_def [symmetric] s2_def [symmetric] s3_def [symmetric]
    r2_def [symmetric] r3_def [symmetric] r4_def [symmetric]
  have D: "DecodeRuneInString (c # rest) =
     (if s0 < 0xC2 \<or> 0xF4 < s0 then (RuneError, 1)
      else if s0 < 0xE0 then
        (if Suc (length rest) < 2 then (RuneError, 1)
         else if s1 < 0x80 \<or> 0xBF < s1 then (RuneError, 1)
         else (r2, 2))
      else if s0 < 0xF0 then
        (if Suc (length rest) < 3 then (RuneError, 1)
         else if s1 < (if s0 = 0xE0 then 0xA0 else 0x80) \<or> (if s0 = 0xED then 0x9F else 0xBF) < s1
              then (RuneError, 1)
         else if s2 < 0x80 \<or> 0xBF < s2 then (RuneError, 1)
         else (r3, 3))
      else
        (if Suc (length rest) < 4 then (RuneError, 1)
         else if s1 < (if s0 = 0xF0 then 0x90 else 0x80) \<or> (if s0 = 0xF4 then 0x8F else 0xBF) < s1
              then (RuneError, 1)
         else if s2 < 0x80 \<or> 0xBF < s2 then (RuneError, 1)
         else if s3 < 0x80 \<or> 0xBF < s3 then (RuneError, 1)
         else (r4, 4)))"
    using assms(2) unfolding DecodeRuneInString.simps Let_def defs
    by (simp add: s0_def)
  have two: "0x80 \<le> r2" if "0xC2 \<le> s0" "s0 < 0xE0"
    using lead2 [OF that] by (simp add: r2_def)
  have three: "0x80 \<le> r3"
    if "0xE0 \<le> s0" "s0 < 0xF0" "\<not> s1 < (if s0 = 0xE0 then 0xA0 else 0x80)" "s1 \<le> 0xBF"
  proof (cases "s0 = 0xE0")
    case True
    with that second3 [of s1] show ?thesis
      by (simp add: r3_def)
  next
    case False
    with that lead3 [of s0] show ?thesis
      by (simp add: r3_def)
  qed
  have four: "0x80 \<le> r4"
    if "0xF0 \<le> s0" "s0 \<le> 0xF4" "\<not> s1 < (if s0 = 0xF0 then 0x90 else 0x80)" "s1 \<le> 0xBF"
  proof (cases "s0 = 0xF0")
    case True
    with that second4 [of s1] show ?thesis
      by (simp add: r4_def)
  next
    case False
    with that lead4 [of s0] show ?thesis
      by (simp add: r4_def)
  qed
  show ?thesis
  proof (cases "s0 < 0xC2 \<or> 0xF4 < s0")
    case True
    with assms(1) show ?thesis
      by (simp add: D)
  next
    case out: False
    show ?thesis
    proof (cases "s0 < 0xE0")
      case True
      with out assms(1) two show ?thesis
        by (auto simp: D Suc_le_eq split: if_splits)
    next
      case n2: False
      show ?thesis
      proof (cases "s0 < 0xF0")
        case True
        have "s1 \<le> 0xBF" if "\<not> (if s0 = 0xED then 0x9F else 0xBF) < s1"
          using that by (simp split: if_splits)
        with True n2 out assms(1) three show ?thesis
          by (auto simp: D split: if_splits)
      next
        case False
        have "s1 \<le> 0xBF" if "\<not> (if s0 = 0xF4 then 0x8F else 0xBF) < s1"
          using that by (simp split: if_splits)
        with False n2 out assms(1) four show ?thesis
          by (auto simp: D split: if_splits)
      qed
    qed
  qed
qed

lemma appendEscapedRune_length_ascii:
  "enc \<noteq> [] \<Longrightarrow> 1 \<le> length (appendEscapedRune tbl r enc)"
  by (cases enc) (simp_all add: appendEscapedRune_def)

lemma appendEscapedRune_length_wide:
  "0x80 \<le> r \<Longrightarrow> length enc \<le> 4 \<Longrightarrow> length enc \<le> length (appendEscapedRune tbl r enc)"
  by (simp add: appendEscapedRune_def)

lemma quoteStep_length:
  "1 \<le> snd (quoteStep tbl (c # cs))
   \<and> snd (quoteStep tbl (c # cs)) \<le> length (fst (quoteStep tbl (c # cs)))"
proof (cases "0x80 \<le> (of_char c :: nat)")
  case False
  then show ?thesis
    using appendEscapedRune_length_ascii [of "[c]" tbl "of_char c"]
    by (simp add: quoteStep_def Let_def)
next
  case True
  obtain r w where d: "DecodeRuneInString (c # cs) = (r, w)"
    by (cases "DecodeRuneInString (c # cs)") auto
  from DecodeRuneInString_width [OF d True] show ?thesis
  proof
    assume "w = 1 \<and> r = RuneError"
    with True d show ?thesis
      by (simp add: quoteStep_def Let_def)
  next
    assume wide: "2 \<le> w \<and> w \<le> 4 \<and> w \<le> Suc (length cs) \<and> 0x80 \<le> r"
    then have "length (take w (c # cs)) = w"
      by simp
    with wide appendEscapedRune_length_wide [of r "take w (c # cs)" tbl]
    have "w \<le> length (appendEscapedRune tbl r (take w (c # cs)))"
      by simp
    with True d wide show ?thesis
      by (simp add: quoteStep_def Let_def)
  qed
qed

lemma quoteLoop_length: "length s \<le> length (quoteLoop tbl s)"
proof (induction tbl s rule: quoteLoop.induct)
  case (1 tbl)
  then show ?case by simp
next
  case (2 tbl c cs)
  from quoteStep_length [of tbl c cs] "2.IH" show ?case
    by simp linarith
qed

lemma Quote_longer: "Quote tbl s \<noteq> s"
proof
  assume "Quote tbl s = s"
  then have "length (Quote tbl s) = length s"
    by simp
  with quoteLoop_length [of s tbl] show False
    by (simp add: Quote_def)
qed

lemma quoteStep_plain:
  assumes "0x20 \<le> (of_char c :: nat)" "(of_char c :: nat) \<le> 0x7E"
    and "c \<noteq> CHR 0x22" "c \<noteq> CHR 0x5C"
  shows "quoteStep tbl (c # cs) = ([c], 1)"
proof -
  have "(of_char c :: nat) \<noteq> of_char (CHR 0x22)" "(of_char c :: nat) \<noteq> of_char (CHR 0x5C)"
    using assms(3,4) by (simp_all only: of_char_eq_iff not_False_eq_True)
  then have "(of_char c :: nat) \<noteq> 0x22" "(of_char c :: nat) \<noteq> 0x5C"
    by simp_all
  with assms(1,2) show ?thesis
    by (simp add: quoteStep_def appendEscapedRune_def IsPrint_def RuneError_def Let_def)
qed

lemma quoteLoop_plain:
  assumes "\<forall>c\<in>set s. 0x20 \<le> (of_char c :: nat) \<and> (of_char c :: nat) \<le> 0x7E
                     \<and> c \<noteq> CHR 0x22 \<and> c \<noteq> CHR 0x5C"
  shows "quoteLoop tbl s = s"
  using assms by (induction s) (simp_all add: quoteStep_plain)

subsection \<open>The claims\<close>

text \<open>
  Claim C1. When the state has site type \<open>INET_DOMAIN\<close> and method \<open>DNS_TXT\<close>: if the
  fetch of the TXT record fails with an error whose text contains \<open>404\<close>, \<open>Read\<close>
  removes the resource from the state, reports no error and makes no other call, so no
  verification get. If the verification get is made and fails with such an error,
  \<open>Read\<close> removes the resource from the state and reports no error.
\<close>

theorem Read_not_found_removes:
  assumes "ValueString (SiteType data) = ''INET_DOMAIN''"
    and "ValueString (VerificationMethod data) = ''DNS_TXT''"
  shows "let project = ValueString (Project data);
             zone = ValueString (ManagedZone data);
             name = ValueString (SiteIdentifier data);
             resp = Read r data
         in (\<forall>err. ResourceRecordSets_Get (DNS r) project ''global'' zone name ''TXT'' = Inl err
                     \<and> Contains err ''404'' \<longrightarrow>
                   State resp = StateRemoved \<and> Diagnostics resp = []
                   \<and> Calls resp = [DNS_Get project ''global'' zone name ''TXT'']
                   \<and> (\<forall>i. SV_Get i \<notin> set (Calls resp)))
            \<and> (\<forall>err. SV_Get (SiteID data) \<in> set (Calls resp)
                     \<and> WebResource_Get (SiteVerification r) (SiteID data) = Inl err
                     \<and> Contains err ''404'' \<longrightarrow>
                   State resp = StateRemoved \<and> Diagnostics resp = [])"
proof -
  define dnsGet where
    "dnsGet = DNS_Get (ValueString (Project data)) ''global'' (ValueString (ManagedZone data))
                (ValueString (SiteIdentifier data)) ''TXT''"
  obtain res where d: "readDNSRecord r data = ([dnsGet], res)"
    by (simp add: readDNSRecord_def dnsGet_def)
  have R: "Read r data =
     (case res of
        Inl err \<Rightarrow>
          if Contains err ''404'' then \<lparr>Calls = [dnsGet], Diagnostics = [], State = StateRemoved\<rparr>
          else \<lparr>Calls = [dnsGet], Diagnostics = [(''Error reading DNS record'', err)],
                State = StateUntouched\<rparr>
      | Inr data' \<Rightarrow>
          (case WebResource_Get (SiteVerification r) (SiteID data') of
             Inl err \<Rightarrow>
               if Contains err ''404'' then
                 \<lparr>Calls = [dnsGet, SV_Get (SiteID data')], Diagnostics = [], State = StateRemoved\<rparr>
               else
                 \<lparr>Calls = [dnsGet, SV_Get (SiteID data')],
                  Diagnostics = [(''Error reading site verification'', err)],
                  State = StateUntouched\<rparr>
           | Inr resp \<Rightarrow>
               \<lparr>Calls = [dnsGet, SV_Get (SiteID data')], Diagnostics = [],
                State = StateSet (data'\<lparr>Owners := parseOwnersFromResponse resp\<rparr>)\<rparr>))"
    by (simp add: Read_def assms d readSiteVerification_def split: sum.splits)
  have fetch_failed: "res = Inl err"
    if "ResourceRecordSets_Get (DNS r) (ValueString (Project data)) ''global''
          (ValueString (ManagedZone data)) (ValueString (SiteIdentifier data)) ''TXT'' = Inl err"
    for err
    using d that by (simp add: readDNSRecord_def)
  have same_id: "SiteID data' = SiteID data" if "res = Inr data'" for data'
    using d that by (auto simp: readDNSRecord_def SiteID_def split: sum.splits if_splits)
  have first: "State (Read r data) = StateRemoved \<and> Diagnostics (Read r data) = []
               \<and> Calls (Read r data) = [dnsGet] \<and> (\<forall>i. SV_Get i \<notin> set (Calls (Read r data)))"
    if "ResourceRecordSets_Get (DNS r) (ValueString (Project data)) ''global''
          (ValueString (ManagedZone data)) (ValueString (SiteIdentifier data)) ''TXT'' = Inl err
        \<and> Contains err ''404''"
    for err
    using fetch_failed [of err] that by (simp add: R dnsGet_def)
  have second: "State (Read r data) = StateRemoved \<and> Diagnostics (Read r data) = []"
    if "SV_Get (SiteID data) \<in> set (Calls (Read r data))
        \<and> WebResource_Get (SiteVerification r) (SiteID data) = Inl err \<and> Contains err ''404''"
    for err
  proof (cases res)
    case (Inl e)
    with that show ?thesis
      by (simp add: R dnsGet_def split: if_splits)
  next
    case (Inr data')
    with that same_id [OF Inr] show ?thesis
      by (simp add: R)
  qed
  show ?thesis
    unfolding Let_def using first second
    by (simp only: dnsGet_def) blast
qed

theorem Read_not_found_removes_witness:
  "ValueString (SiteType sample_state) = ''INET_DOMAIN''
   \<and> ValueString (VerificationMethod sample_state) = ''DNS_TXT''
   \<and> Contains not_found ''404''
   \<and> Read (sample_clients (dns_failing not_found) sv_up) sample_state
       = \<lparr>Calls = [DNS_Get ''my-project'' ''global'' ''zone'' ''example.com'' ''TXT''],
          Diagnostics = [], State = StateRemoved\<rparr>
   \<and> Read (sample_clients dns_up (sv_failing not_found)) sample_state
       = \<lparr>Calls = [DNS_Get ''my-project'' ''global'' ''zone'' ''example.com'' ''TXT'',
                   SV_Get ''example.com''],
          Diagnostics = [], State = StateRemoved\<rparr>"
  using Read_not_found_removes [of sample_state "sample_clients (dns_failing not_found) sv_up"]
        Read_not_found_removes [of sample_state "sample_clients dns_up (sv_failing not_found)"]
  by (simp add: Read_def readDNSRecord_def readSiteVerification_def SiteID_def
        TrimSuffix_def HasSuffix_def HasPrefix_def sample_clients_def dns_up_def dns_failing_def
        sv_failing_def sample_state_def not_found_def Let_def)

text \<open>
  Claim C2. When the site type is \<open>INET_DOMAIN\<close> and the method \<open>DNS_TXT\<close> (each
  given or defaulted from null), \<open>Create\<close> first writes the TXT record, under the
  provider's project when the plan's project is null. If that write fails, nothing else
  is called and the error is reported. The insert endpoint is called only after the
  write has succeeded, and then these two are all the calls.
\<close>

theorem Create_dns_before_insert:
  assumes "IsNull (SiteType plan) \<or> ValueString (SiteType plan) = ''INET_DOMAIN''"
    and "IsNull (VerificationMethod plan) \<or> ValueString (VerificationMethod plan) = ''DNS_TXT''"
  shows "let project = (if IsNull (Project plan) then ProjectID r else ValueString (Project plan));
             zone = ValueString (ManagedZone plan);
             rrset = \<lparr>ResourceRecordSet.Name = forceDot (ValueString (SiteIdentifier plan)),
                      Rrdatas = [ValueString (Token plan)], Ttl = 60, Type = ''TXT''\<rparr>;
             dnsWrite = DNS_Create project ''global'' zone rrset;
             resp = Create tbl r plan
         in take 1 (Calls resp) = [dnsWrite]
            \<and> (\<forall>err. ResourceRecordSets_Create (DNS r) project ''global'' zone rrset = Inl err \<longrightarrow>
                   Calls resp = [dnsWrite]
                   \<and> Diagnostics resp = [(''Error creating DNS record'', err)]
                   \<and> State resp = StateUntouched)
            \<and> (\<forall>m greq. SV_Insert m greq \<in> set (Calls resp) \<longrightarrow>
                   Calls resp = [dnsWrite, SV_Insert m greq]
                   \<and> (\<exists>gresp. ResourceRecordSets_Create (DNS r) project ''global'' zone rrset
                                = Inr gresp))"
  using assms by (rule Create_dns_txt_calls)

theorem Create_dns_before_insert_witness:
  "(IsNull (SiteType sample_plan) \<or> ValueString (SiteType sample_plan) = ''INET_DOMAIN'')
   \<and> (IsNull (VerificationMethod sample_plan)
        \<or> ValueString (VerificationMethod sample_plan) = ''DNS_TXT'')
   \<and> Calls (Create (\<lambda>r. True) (sample_clients dns_up sv_up) sample_plan)
       = [DNS_Create ''my-project'' ''global'' ''zone''
            \<lparr>ResourceRecordSet.Name = ''example.com.'', Rrdatas = [''abc''], Ttl = 60,
             Type = ''TXT''\<rparr>,
          SV_Insert ''DNS_TXT''
            \<lparr>Id = [], WebResourceResource.Owners = [''admin@example.com''],
             Site = Some \<lparr>WebResourceResourceSite.Identifier = ''example.com'',
                          WebResourceResourceSite.Type = ''INET_DOMAIN''\<rparr>\<rparr>]
   \<and> Create (\<lambda>r. True) (sample_clients (dns_failing unavailable) sv_up) sample_plan
       = \<lparr>Calls = [DNS_Create ''my-project'' ''global'' ''zone''
                      \<lparr>ResourceRecordSet.Name = ''example.com.'', Rrdatas = [''abc''], Ttl = 60,
                       Type = ''TXT''\<rparr>],
          Diagnostics = [(''Error creating DNS record'', unavailable)],
          State = StateUntouched\<rparr>"
  using Create_dns_before_insert [of sample_plan "sample_clients dns_up sv_up" "\<lambda>r. True"]
        Create_dns_before_insert [of sample_plan "sample_clients (dns_failing unavailable) sv_up"
          "\<lambda>r. True"]
  by (simp add: Create_def createDNSRecord_def insertSiteVerification_def
        buildSiteVerification_def parseOwnersFromData_def listValueToStringSlice_def
        elemToString_def parseOwnersFromResponse_def decodeID_def
        sample_clients_def dns_up_def dns_failing_def sv_up_def sample_plan_def
        forceDot_def HasSuffix_def Let_def)

text \<open>
  Claim C3. When the site type is \<open>INET_DOMAIN\<close> and the method \<open>DNS_TXT\<close>, \<open>Delete\<close>
  first deletes the TXT record. If that fails, nothing else is called and the error is
  reported. If the verification delete that follows fails, its error is reported and
  the calls remain the two deletes: the record is not created again.
\<close>

theorem Delete_dns_before_verification:
  assumes "ValueString (SiteType data) = ''INET_DOMAIN''"
    and "ValueString (VerificationMethod data) = ''DNS_TXT''"
  shows "let project = ValueString (Project data);
             zone = ValueString (ManagedZone data);
             name = ValueString (SiteIdentifier data);
             dnsDelete = DNS_Delete project ''global'' zone name ''TXT'';
             resp = Delete r data
         in take 1 (Calls resp) = [dnsDelete]
            \<and> (\<forall>err. ResourceRecordSets_Delete (DNS r) project ''global'' zone name ''TXT'' = Some err \<longrightarrow>
                   Calls resp = [dnsDelete]
                   \<and> Diagnostics resp = [(''Error deleting DNS record'', err)])
            \<and> (\<forall>err. SV_Delete (SiteID data) \<in> set (Calls resp)
                     \<and> WebResource_Delete (SiteVerification r) (SiteID data) = Some err \<longrightarrow>
                   Calls resp = [dnsDelete, SV_Delete (SiteID data)]
                   \<and> Diagnostics resp = [(''Error relinquishing site verification'', err)])
            \<and> (\<forall>p l z rrset. DNS_Create p l z rrset \<notin> set (Calls resp))"
proof -
  define dnsDelete where
    "dnsDelete = DNS_Delete (ValueString (Project data)) ''global'' (ValueString (ManagedZone data))
                   (ValueString (SiteIdentifier data)) ''TXT''"
  define e where
    "e = ResourceRecordSets_Delete (DNS r) (ValueString (Project data)) ''global''
           (ValueString (ManagedZone data)) (ValueString (SiteIdentifier data)) ''TXT''"
  have d: "deleteDNSRecord r data = ([dnsDelete], e)"
    by (simp add: deleteDNSRecord_def dnsDelete_def e_def)
  have D: "Delete r data =
     (case e of
        Some err \<Rightarrow>
          \<lparr>Calls = [dnsDelete], Diagnostics = [(''Error deleting DNS record'', err)],
           State = StateUntouched\<rparr>
      | None \<Rightarrow>
          (case WebResource_Delete (SiteVerification r) (SiteID data) of
             Some err \<Rightarrow>
               \<lparr>Calls = [dnsDelete, SV_Delete (SiteID data)],
                Diagnostics = [(''Error relinquishing site verification'', err)],
                State = StateUntouched\<rparr>
           | None \<Rightarrow>
               \<lparr>Calls = [dnsDelete, SV_Delete (SiteID data)], Diagnostics = [],
                State = StateUntouched\<rparr>))"
    by (simp add: Delete_def assms d deleteSiteVerification_def split: option.splits)
  show ?thesis
    unfolding Let_def dnsDelete_def [symmetric] e_def [symmetric] D
    by (cases e; cases "WebResource_Delete (SiteVerification r) (SiteID data)")
       (simp_all add: dnsDelete_def)
qed

theorem Delete_dns_before_verification_witness:
  "ValueString (SiteType sample_state) = ''INET_DOMAIN''
   \<and> ValueString (VerificationMethod sample_state) = ''DNS_TXT''
   \<and> Delete (sample_clients (dns_failing unavailable) sv_up) sample_state
       = \<lparr>Calls = [DNS_Delete ''my-project'' ''global'' ''zone'' ''example.com'' ''TXT''],
          Diagnostics = [(''Error deleting DNS record'', unavailable)],
          State = StateUntouched\<rparr>
   \<and> Delete (sample_clients dns_up (sv_failing unavailable)) sample_state
       = \<lparr>Calls = [DNS_Delete ''my-project'' ''global'' ''zone'' ''example.com'' ''TXT'',
                   SV_Delete ''example.com''],
          Diagnostics = [(''Error relinquishing site verification'', unavailable)],
          State = StateUntouched\<rparr>"
  using Delete_dns_before_verification [of sample_state
          "sample_clients (dns_failing unavailable) sv_up"]
        Delete_dns_before_verification [of sample_state
          "sample_clients dns_up (sv_failing unavailable)"]
  by (simp add: Delete_def deleteDNSRecord_def deleteSiteVerification_def SiteID_def
        TrimSuffix_def HasSuffix_def sample_clients_def dns_up_def dns_failing_def
        sv_failing_def sample_state_def Let_def)

text \<open>
  Claim C4. After a successful \<open>Create\<close> the owners in the state are the owners of the
  response to the insert request that was sent, whatever the plan held. After a
  successful \<open>Update\<close> the owners in the state are the owners sent in the patch
  request, which are the owners of the plan; the response to the patch is not read.
\<close>

theorem owners_authority:
  "(\<forall>d. State (Create tbl r plan) = StateSet d \<longrightarrow>
      (\<exists>m greq callResp.
          last (Calls (Create tbl r plan)) = SV_Insert m greq
          \<and> WebResource_Insert (SiteVerification r) m greq = Inr callResp
          \<and> Owners d = ListValue (map StringValue (WebResourceResource.Owners callResp))))
   \<and> (Diagnostics (Update r plan) = [] \<longrightarrow>
      (\<exists>i greq d.
          last (Calls (Update r plan)) = SV_Patch i greq
          \<and> elemsToStrings (Elements (Owners plan)) = Inr (WebResourceResource.Owners greq)
          \<and> State (Update r plan) = StateSet d
          \<and> Owners d = ListValue (map StringValue (WebResourceResource.Owners greq))))
   \<and> (\<forall>os. Diagnostics (Update r plan) = [] \<and> Owners plan = ListValue (map StringValue os) \<longrightarrow>
      (\<exists>d. State (Update r plan) = StateSet d \<and> Owners d = Owners plan))"
proof -
  define d1 where
    "d1 = (if IsNull (SiteType plan) then plan\<lparr>SiteType := StringValue ''INET_DOMAIN''\<rparr> else plan)"
  define d2 where
    "d2 = (if IsNull (VerificationMethod d1)
           then d1\<lparr>VerificationMethod := StringValue ''DNS_TXT''\<rparr> else d1)"
  define d3 where
    "d3 = (if IsNull (Project d2) then d2\<lparr>Project := StringValue (ProjectID r)\<rparr> else d2)"
  define dnsC where
    "dnsC = (if ValueString (SiteType d2) = ''INET_DOMAIN'' then
               (if ValueString (VerificationMethod d2) = ''DNS_TXT''
                then (d3, createDNSRecord r d3)
                else (d2, [], None))
             else (d2, [], None))"
  define dnsU where
    "dnsU = (if ValueString (SiteType d2) = ''INET_DOMAIN'' then
               (if ValueString (VerificationMethod d2) = ''DNS_TXT'' then
                  (case deleteDNSRecord r d2 of
                     (cs, Some err) \<Rightarrow> (cs, Some (''Error deleting DNS record'', err))
                   | (cs, None) \<Rightarrow>
                       (case createDNSRecord r d2 of
                          (cs', Some err) \<Rightarrow>
                            (cs @ cs', Some (''Error updating DNS TXT record'', err))
                        | (cs', None) \<Rightarrow> (cs @ cs', None)))
                else ([], None))
             else ([], None))"
  note C = Create_unfold [OF d1_def d2_def d3_def dnsC_def, of tbl]
  note U = Update_unfold [OF d1_def d2_def dnsU_def]
  have created: "\<exists>m greq callResp.
          last (Calls (Create tbl r plan)) = SV_Insert m greq
          \<and> WebResource_Insert (SiteVerification r) m greq = Inr callResp
          \<and> Owners d = ListValue (map StringValue (WebResourceResource.Owners callResp))"
    if set: "State (Create tbl r plan) = StateSet d" for d
  proof -
    obtain data cs e where dns: "dnsC = (data, cs, e)"
      by (cases dnsC) auto
    obtain cs' res where ins: "insertSiteVerification tbl r data = (cs', res)"
      by (cases "insertSiteVerification tbl r data") auto
    from set have "res = Inr d \<and> Calls (Create tbl r plan) = cs @ cs'"
      by (cases e; cases res) (auto simp: C dns ins)
    with ins insertSiteVerification_success [of tbl r data cs' d] show ?thesis
      by auto
  qed
  have updated: "\<exists>i greq d.
          last (Calls (Update r plan)) = SV_Patch i greq
          \<and> elemsToStrings (Elements (Owners plan)) = Inr (WebResourceResource.Owners greq)
          \<and> State (Update r plan) = StateSet d
          \<and> Owners d = ListValue (map StringValue (WebResourceResource.Owners greq))"
    if ok: "Diagnostics (Update r plan) = []"
  proof -
    obtain cs e where dns: "dnsU = (cs, e)"
      by (cases dnsU) auto
    obtain cs' res where pat: "patchSiteVerification r d2 = (cs', res)"
      by (cases "patchSiteVerification r d2") auto
    from ok obtain d where res: "res = Inr d"
      and upd: "Update r plan = \<lparr>Calls = cs @ cs', Diagnostics = [], State = StateSet d\<rparr>"
      by (cases e; cases res) (auto simp: U dns pat)
    from pat res patchSiteVerification_success [of r d2 cs' d]
    obtain greq where g: "cs' = [SV_Patch (SiteID d2) greq]"
      "buildSiteVerification d2 False = Inr greq"
      "Owners d = ListValue (map StringValue (WebResourceResource.Owners greq))"
      by auto
    have "Owners d2 = Owners plan"
      by (rule defaults_keep(3) [OF d1_def d2_def d3_def])
    with buildSiteVerification_owners [OF g(2)]
    have "elemsToStrings (Elements (Owners plan)) = Inr (WebResourceResource.Owners greq)"
      by simp
    with g upd show ?thesis
      by simp
  qed
  have known: "\<exists>d. State (Update r plan) = StateSet d \<and> Owners d = Owners plan"
    if "Diagnostics (Update r plan) = [] \<and> Owners plan = ListValue (map StringValue os)" for os
    using updated that by (auto simp: elemsToStrings_known)
  from created updated known show ?thesis
    by blast
qed

theorem owners_authority_witness:
  "State (Create (\<lambda>r. True) (sample_clients dns_up sv_up) sample_plan)
     = StateSet (sample_plan\<lparr>Project := StringValue ''my-project'',
                   VerificationMethod := StringValue ''DNS_TXT'',
                   SiteType := StringValue ''INET_DOMAIN'',
                   Owners := ListValue [StringValue ''owner@example.com''],
                   ID := StringValue ''dns://example.com''\<rparr>)
   \<and> Update (sample_clients dns_up sv_up) sample_plan
     = \<lparr>Calls = [DNS_Delete [] ''global'' ''zone'' ''example.com'' ''TXT'',
                 DNS_Create [] ''global'' ''zone''
                   \<lparr>ResourceRecordSet.Name = ''example.com.'', Rrdatas = [''abc''], Ttl = 60,
                    Type = ''TXT''\<rparr>,
                 SV_Patch ''example.com''
                   \<lparr>Id = [], WebResourceResource.Owners = [''admin@example.com''],
                    Site = None\<rparr>],
        Diagnostics = [],
        State = StateSet (sample_plan\<lparr>VerificationMethod := StringValue ''DNS_TXT'',
                            SiteType := StringValue ''INET_DOMAIN''\<rparr>)\<rparr>
   \<and> Owners sample_plan = ListValue (map StringValue [''admin@example.com''])"
  using owners_authority [of "\<lambda>r. True" "sample_clients dns_up sv_up" sample_plan]
  by (simp add: Create_def Update_def createDNSRecord_def deleteDNSRecord_def
        insertSiteVerification_def patchSiteVerification_def stringSliceToListValue_def
        buildSiteVerification_def parseOwnersFromData_def listValueToStringSlice_def
        elemToString_def parseOwnersFromResponse_def decodeID_def SiteID_def TrimSuffix_def
        sample_clients_def dns_up_def sv_up_def sample_plan_def
        forceDot_def HasSuffix_def Let_def)

text \<open>
  Claim C5. The data source sends one request for a token and nothing else, whether it
  fails or not. The request carries the site identifier, the site type or
  \<open>INET_DOMAIN\<close> when that is null, and the verification method or \<open>DNS_TXT\<close> when
  that is null. On success the state holds the configuration with the two defaults and
  the token of the response as it came; on failure the error is reported and no state
  is set.
\<close>

theorem DomainKeyDataSource_Read_token:
  "(let greq = \<lparr>GettokenRequest.Site =
                    \<lparr>GettokenRequestSite.Identifier =
                       ValueString (DomainKeyDataSourceModel.SiteIdentifier config),
                     GettokenRequestSite.Type =
                       (if IsNull (DomainKeyDataSourceModel.SiteType config) then ''INET_DOMAIN''
                        else ValueString (DomainKeyDataSourceModel.SiteType config))\<rparr>,
                  GettokenRequest.VerificationMethod =
                    (if IsNull (DomainKeyDataSourceModel.VerificationMethod config) then ''DNS_TXT''
                     else ValueString (DomainKeyDataSourceModel.VerificationMethod config))\<rparr>;
        resp = DomainKeyDataSource_Read client config
    in Calls resp = [SV_GetToken greq]
       \<and> (\<forall>callResp. WebResource_GetToken client greq = Inr callResp \<longrightarrow>
              Diagnostics resp = []
              \<and> State resp = StateSet
                   \<lparr>DomainKeyDataSourceModel.VerificationMethod =
                      (if IsNull (DomainKeyDataSourceModel.VerificationMethod config)
                       then StringValue ''DNS_TXT''
                       else DomainKeyDataSourceModel.VerificationMethod config),
                    DomainKeyDataSourceModel.SiteIdentifier =
                      DomainKeyDataSourceModel.SiteIdentifier config,
                    DomainKeyDataSourceModel.SiteType =
                      (if IsNull (DomainKeyDataSourceModel.SiteType config)
                       then StringValue ''INET_DOMAIN''
                       else DomainKeyDataSourceModel.SiteType config),
                    DomainKeyDataSourceModel.Token =
                      StringValue (GettokenResponse.Token callResp)\<rparr>)
       \<and> (\<forall>err. WebResource_GetToken client greq = Inl err \<longrightarrow>
              Diagnostics resp = [(''Error retrieving verification token'', err)]
              \<and> State resp = StateUntouched))"
  by (cases config) (simp add: DomainKeyDataSource_Read_def Let_def split: sum.splits)

theorem DomainKeyDataSource_Read_token_witness:
  "DomainKeyDataSource_Read sv_up
     \<lparr>DomainKeyDataSourceModel.VerificationMethod = StringNull,
      DomainKeyDataSourceModel.SiteIdentifier = StringValue ''example.com'',
      DomainKeyDataSourceModel.SiteType = StringNull,
      DomainKeyDataSourceModel.Token = StringNull\<rparr>
   = \<lparr>Calls = [SV_GetToken
                 \<lparr>GettokenRequest.Site =
                    \<lparr>GettokenRequestSite.Identifier = ''example.com'',
                     GettokenRequestSite.Type = ''INET_DOMAIN''\<rparr>,
                  GettokenRequest.VerificationMethod = ''DNS_TXT''\<rparr>],
      Diagnostics = [],
      State = StateSet
        \<lparr>DomainKeyDataSourceModel.VerificationMethod = StringValue ''DNS_TXT'',
         DomainKeyDataSourceModel.SiteIdentifier = StringValue ''example.com'',
         DomainKeyDataSourceModel.SiteType = StringValue ''INET_DOMAIN'',
         DomainKeyDataSourceModel.Token = StringValue ''abc''\<rparr>\<rparr>
   \<and> DomainKeyDataSource_Read (sv_failing unavailable)
       \<lparr>DomainKeyDataSourceModel.VerificationMethod = StringValue ''DNS_TXT'',
        DomainKeyDataSourceModel.SiteIdentifier = StringValue ''example.com'',
        DomainKeyDataSourceModel.SiteType = StringValue ''INET_DOMAIN'',
        DomainKeyDataSourceModel.Token = StringNull\<rparr>
     = \<lparr>Calls = [SV_GetToken
                   \<lparr>GettokenRequest.Site =
                      \<lparr>GettokenRequestSite.Identifier = ''example.com'',
                       GettokenRequestSite.Type = ''INET_DOMAIN''\<rparr>,
                    GettokenRequest.VerificationMethod = ''DNS_TXT''\<rparr>],
        Diagnostics = [(''Error retrieving verification token'', unavailable)],
        State = StateUntouched\<rparr>"
  using DomainKeyDataSource_Read_token [of
          "\<lparr>DomainKeyDataSourceModel.VerificationMethod = StringNull,
            DomainKeyDataSourceModel.SiteIdentifier = StringValue ''example.com'',
            DomainKeyDataSourceModel.SiteType = StringNull,
            DomainKeyDataSourceModel.Token = StringNull\<rparr>" sv_up]
        DomainKeyDataSource_Read_token [of
          "\<lparr>DomainKeyDataSourceModel.VerificationMethod = StringValue ''DNS_TXT'',
            DomainKeyDataSourceModel.SiteIdentifier = StringValue ''example.com'',
            DomainKeyDataSourceModel.SiteType = StringValue ''INET_DOMAIN'',
            DomainKeyDataSourceModel.Token = StringNull\<rparr>" "sv_failing unavailable"]
  by (simp add: DomainKeyDataSource_Read_def sv_up_def sv_failing_def Let_def)

text \<open>
  Claim C6, as the code has it. A request built from a model whose owners are null has
  no owners, so that no \<open>owners\<close> field is sent. A model whose owners are the empty
  list gives the very same request. A request that was built carries an \<open>owners\<close>
  field exactly when the owners of the model have an element.
\<close>

theorem buildSiteVerification_owners_field:
  "(ListIsNull (Owners data) \<longrightarrow>
      (\<exists>greq. buildSiteVerification data includeSite = Inr greq \<and> \<not> ownersFieldSent greq))
   \<and> (Owners data = ListValue [] \<longrightarrow>
      buildSiteVerification data includeSite
      = buildSiteVerification (data\<lparr>Owners := ListNull\<rparr>) includeSite)
   \<and> (\<forall>greq. buildSiteVerification data includeSite = Inr greq \<longrightarrow>
      (ownersFieldSent greq \<longleftrightarrow> Elements (Owners data) \<noteq> []))"
proof -
  have null: "\<exists>greq. buildSiteVerification data includeSite = Inr greq \<and> \<not> ownersFieldSent greq"
    if "ListIsNull (Owners data)"
    using that by (simp add: buildSiteVerification_def ownersFieldSent_def Let_def)
  have empty: "buildSiteVerification data includeSite
               = buildSiteVerification (data\<lparr>Owners := ListNull\<rparr>) includeSite"
    if "Owners data = ListValue []"
    using that
    by (simp add: buildSiteVerification_def parseOwnersFromData_def listValueToStringSlice_def
          Let_def)
  have sent: "ownersFieldSent greq \<longleftrightarrow> Elements (Owners data) \<noteq> []"
    if "buildSiteVerification data includeSite = Inr greq" for greq
  proof -
    from buildSiteVerification_owners [OF that]
    have "elemsToStrings (Elements (Owners data)) = Inr (WebResourceResource.Owners greq)" .
    then show ?thesis
      by (cases "Elements (Owners data)") (auto simp: ownersFieldSent_def split: sum.splits)
  qed
  from null empty sent show ?thesis
    by blast
qed

theorem buildSiteVerification_owners_field_witness:
  "ListIsNull (Owners (sample_plan\<lparr>Owners := ListNull\<rparr>))
   \<and> buildSiteVerification (sample_plan\<lparr>Owners := ListNull\<rparr>) False
       = Inr \<lparr>Id = [], WebResourceResource.Owners = [], Site = None\<rparr>
   \<and> \<not> ownersFieldSent \<lparr>Id = [], WebResourceResource.Owners = [], Site = None\<rparr>
   \<and> buildSiteVerification (sample_plan\<lparr>Owners := ListValue []\<rparr>) False
       = Inr \<lparr>Id = [], WebResourceResource.Owners = [], Site = None\<rparr>
   \<and> buildSiteVerification sample_plan False
       = Inr \<lparr>Id = [], WebResourceResource.Owners = [''admin@example.com''], Site = None\<rparr>
   \<and> ownersFieldSent \<lparr>Id = [], WebResourceResource.Owners = [''admin@example.com''], Site = None\<rparr>
   \<and> Elements (Owners sample_plan) \<noteq> []"
  using buildSiteVerification_owners_field [of "sample_plan\<lparr>Owners := ListNull\<rparr>" False]
        buildSiteVerification_owners_field [of "sample_plan\<lparr>Owners := ListValue []\<rparr>" False]
        buildSiteVerification_owners_field [of sample_plan False]
  by (simp add: sample_plan_def buildSiteVerification_def parseOwnersFromData_def
        listValueToStringSlice_def elemToString_def ownersFieldSent_def Let_def)

text \<open>
  The insert request and the patch request built for null owners are the requests
  built for an empty list of owners.
\<close>

theorem null_owners_same_as_empty:
  "buildSiteVerification (sample_plan\<lparr>Owners := ListNull\<rparr>) True
     = buildSiteVerification (sample_plan\<lparr>Owners := ListValue []\<rparr>) True
   \<and> buildSiteVerification (sample_plan\<lparr>Owners := ListNull\<rparr>) False
     = buildSiteVerification (sample_plan\<lparr>Owners := ListValue []\<rparr>) False
   \<and> ListNull \<noteq> ListValue []"
  by (simp add: sample_plan_def buildSiteVerification_def parseOwnersFromData_def
        listValueToStringSlice_def Let_def)

text \<open>
  Claim C7, as the code has it. Every TXT record that \<open>Create\<close> or \<open>Update\<close> writes has
  the site identifier as its name, with a dot appended unless it ends in one, the type
  \<open>TXT\<close>, the TTL 60, and as its one value the token as the plan holds it: no quotes
  are put around it.
\<close>

theorem dns_record_written:
  "\<forall>p l z rrset.
      DNS_Create p l z rrset \<in> set (Calls (Create tbl r plan)) \<union> set (Calls (Update r plan)) \<longrightarrow>
        ResourceRecordSet.Name rrset = forceDot (ValueString (SiteIdentifier plan))
        \<and> ResourceRecordSet.Type rrset = ''TXT''
        \<and> Ttl rrset = 60
        \<and> Rrdatas rrset = [ValueString (Token plan)]"
  using Create_record [of _ _ _ _ tbl r plan] Update_record [of _ _ _ _ r plan]
  by fastforce

theorem dns_record_written_witness:
  "DNS_Create ''my-project'' ''global'' ''zone''
     \<lparr>ResourceRecordSet.Name = ''example.com.'', Rrdatas = [''abc''], Ttl = 60, Type = ''TXT''\<rparr>
     \<in> set (Calls (Create (\<lambda>r. True) (sample_clients dns_up sv_up) sample_plan))
   \<and> forceDot (ValueString (SiteIdentifier sample_plan)) = ''example.com.''
   \<and> [ValueString (Token sample_plan)] = [''abc'']"
  using dns_record_written [of "\<lambda>r. True" "sample_clients dns_up sv_up" sample_plan]
  by (simp add: Create_def createDNSRecord_def sample_clients_def dns_up_def sample_plan_def
        forceDot_def HasSuffix_def Let_def split: prod.splits sum.splits)

text \<open>
  The record that \<open>createDNSRecord\<close> writes for the token \<open>abc\<close> holds \<open>abc\<close>, which
  is not \<open>abc\<close> in quotes.
\<close>

theorem dns_record_value_not_quoted:
  "fst (createDNSRecord (sample_clients dns_up sv_up) sample_state)
     = [DNS_Create ''my-project'' ''global'' ''zone''
          \<lparr>ResourceRecordSet.Name = ''example.com.'', Rrdatas = [''abc''], Ttl = 60,
           Type = ''TXT''\<rparr>]
   \<and> ''abc'' \<noteq> [CHR 0x22] @ ''abc'' @ [CHR 0x22]"
  by (simp add: createDNSRecord_def sample_state_def forceDot_def HasSuffix_def Let_def)

text \<open>
  When the fetch of the TXT record succeeds, \<open>readDNSRecord\<close> returns an error exactly
  when the record does not hold one value, and the error is the validation error that
  tells the number found; when it holds one value, the token of the model becomes that
  value with the quotes at both ends removed.
\<close>

lemma readDNSRecord_single_value:
  assumes "ResourceRecordSets_Get (DNS r) (ValueString (Project data)) ''global''
             (ValueString (ManagedZone data)) (ValueString (SiteIdentifier data)) ''TXT''
           = Inr gresp"
  shows "((\<exists>err. snd (readDNSRecord r data) = Inl err) \<longleftrightarrow> length (Rrdatas gresp) \<noteq> 1)
         \<and> (length (Rrdatas gresp) \<noteq> 1 \<longrightarrow>
              snd (readDNSRecord r data)
              = Inl (''Expected 1 TXT record, got '' @ itoa (length (Rrdatas gresp))))
         \<and> (length (Rrdatas gresp) = 1 \<longrightarrow>
              snd (readDNSRecord r data)
              = Inr (data\<lparr>Token := StringValue (Trim (hd (Rrdatas gresp)) [CHR 0x22])\<rparr>))"
  using assms by (cases "Rrdatas gresp") (simp_all add: readDNSRecord_def)

text \<open>
  What \<open>Read\<close> does after a fetch of the TXT record that succeeds. With one value it
  goes on to the verification get, and a state it sets holds that value, less the
  quotes at both ends, as the token. With another number of values it reports the
  validation error of \<open>readDNSRecord\<close> unless the text of that error contains \<open>404\<close>;
  if it does, \<open>Read\<close> removes the resource from the state and reports nothing.
\<close>

lemma Read_txt_values:
  assumes "ValueString (SiteType data) = ''INET_DOMAIN''"
    and "ValueString (VerificationMethod data) = ''DNS_TXT''"
    and "ResourceRecordSets_Get (DNS r) (ValueString (Project data)) ''global''
           (ValueString (ManagedZone data)) (ValueString (SiteIdentifier data)) ''TXT''
         = Inr gresp"
  shows "let n = length (Rrdatas gresp);
             msg = ''Expected 1 TXT record, got '' @ itoa n;
             dnsGet = DNS_Get (ValueString (Project data)) ''global''
                        (ValueString (ManagedZone data)) (ValueString (SiteIdentifier data)) ''TXT'';
             resp = Read r data
         in (n \<noteq> 1 \<and> \<not> Contains msg ''404'' \<longrightarrow>
               resp = \<lparr>Calls = [dnsGet], Diagnostics = [(''Error reading DNS record'', msg)],
                       State = StateUntouched\<rparr>)
            \<and> (n \<noteq> 1 \<and> Contains msg ''404'' \<longrightarrow>
               resp = \<lparr>Calls = [dnsGet], Diagnostics = [], State = StateRemoved\<rparr>)
            \<and> (n = 1 \<longrightarrow>
               Calls resp = [dnsGet, SV_Get (SiteID data)]
               \<and> (\<forall>d. State resp = StateSet d \<longrightarrow>
                     Token d = StringValue (Trim (hd (Rrdatas gresp)) [CHR 0x22])))"
proof -
  define dnsGet where
    "dnsGet = DNS_Get (ValueString (Project data)) ''global'' (ValueString (ManagedZone data))
                (ValueString (SiteIdentifier data)) ''TXT''"
  define msg where "msg = ''Expected 1 TXT record, got '' @ itoa (length (Rrdatas gresp))"
  define dns where
    "dns = (if ValueString (SiteType data) = ''INET_DOMAIN'' then
              (if ValueString (VerificationMethod data) = ''DNS_TXT''
               then readDNSRecord r data
               else ([], Inr data))
            else ([], Inr data))"
  note R = Read_unfold [OF dns_def]
  have dns: "dns = ([dnsGet],
                    if length (Rrdatas gresp) \<noteq> 1 then Inl msg
                    else Inr (data\<lparr>Token := StringValue (Trim (Rrdatas gresp ! 0) [CHR 0x22])\<rparr>))"
    by (simp add: dns_def assms readDNSRecord_def dnsGet_def msg_def)
  have many: "Read r data =
                (if Contains msg ''404'' then
                   \<lparr>Calls = [dnsGet], Diagnostics = [], State = StateRemoved\<rparr>
                 else
                   \<lparr>Calls = [dnsGet], Diagnostics = [(''Error reading DNS record'', msg)],
                    State = StateUntouched\<rparr>)"
    if "length (Rrdatas gresp) \<noteq> 1"
    using that by (simp add: R dns)
  have one: "Calls (Read r data) = [dnsGet, SV_Get (SiteID data)]
             \<and> (\<forall>d. State (Read r data) = StateSet d \<longrightarrow>
                   Token d = StringValue (Trim (hd (Rrdatas gresp)) [CHR 0x22]))"
    if "length (Rrdatas gresp) = 1"
  proof -
    from that obtain v where v: "Rrdatas gresp = [v]"
      by (cases "Rrdatas gresp") auto
    define data' where "data' = data\<lparr>Token := StringValue (Trim v [CHR 0x22])\<rparr>"
    have dns': "dns = ([dnsGet], Inr data')"
      by (simp add: dns v data'_def)
    have i: "SiteID data' = SiteID data"
      by (simp add: SiteID_def data'_def)
    have tk: "Token data' = StringValue (Trim v [CHR 0x22])"
      by (simp add: data'_def)
    show ?thesis
      by (cases "WebResource_Get (SiteVerification r) (SiteID data)")
         (simp_all add: R dns' readSiteVerification_def i v tk)
  qed
  show ?thesis
    unfolding Let_def using many one
    by (simp add: dnsGet_def msg_def)
qed

text \<open>
  Claim C8 says that a \<open>Read\<close> whose fetch of the TXT record succeeds reports a
  validation error exactly when the record does not hold one value. The code does so
  for a record of two values. For a record of 404 values \<open>readDNSRecord\<close> returns the
  validation error, which tells the number; \<open>Read\<close> looks for \<open>404\<close> in the text of
  every error of \<open>readDNSRecord\<close>, takes this one for a record that is not there,
  reports nothing and removes the resource from the state.
\<close>

theorem Read_validation_error_taken_for_not_found:
  "ResourceRecordSets_Get (DNS (sample_clients (dns_holding (replicate 404 ''abc'')) sv_up))
     ''my-project'' ''global'' ''zone'' ''example.com'' ''TXT''
     = Inr \<lparr>ResourceRecordSet.Name = ''example.com'', Rrdatas = replicate 404 ''abc'',
            Ttl = 60, Type = ''TXT''\<rparr>
   \<and> length (replicate 404 ''abc'') \<noteq> 1
   \<and> snd (readDNSRecord (sample_clients (dns_holding (replicate 404 ''abc'')) sv_up) sample_state)
       = Inl ''Expected 1 TXT record, got 404''
   \<and> Read (sample_clients (dns_holding (replicate 404 ''abc'')) sv_up) sample_state
       = \<lparr>Calls = [DNS_Get ''my-project'' ''global'' ''zone'' ''example.com'' ''TXT''],
          Diagnostics = [], State = StateRemoved\<rparr>
   \<and> Read (sample_clients (dns_holding [''abc'', ''def'']) sv_up) sample_state
       = \<lparr>Calls = [DNS_Get ''my-project'' ''global'' ''zone'' ''example.com'' ''TXT''],
          Diagnostics = [(''Error reading DNS record'', ''Expected 1 TXT record, got 2'')],
          State = StateUntouched\<rparr>"
proof -
  have "itoa 404 = ''404''" "itoa (Suc (Suc 0)) = ''2''"
    by (simp_all add: itoa.simps)
  then show ?thesis
    by (simp add: Read_def readDNSRecord_def sample_clients_def dns_holding_def sample_state_def
          HasPrefix_def)
qed

lemma Configure_sample:
  "Configure (\<lambda>r. True) sample_env sample_config = ([], Some sample_configured)"
proof -
  have plain: "\<forall>c\<in>set ''my-project''. 0x20 \<le> (of_char c :: nat) \<and> (of_char c :: nat) \<le> 0x7E
                 \<and> c \<noteq> CHR 0x22 \<and> c \<noteq> CHR 0x5C"
    by simp
  obtain ds clients where c: "Configure (\<lambda>r. True) sample_env sample_config = (ds, Some clients)"
    by (simp add: Configure_def sample_env_def sample_config_def Let_def)
  have "\<not> IsNull (GoogleSiteVerificationProviderModel.Project sample_config)"
    by (simp add: sample_config_def)
  from Configure_ProjectID [OF c this]
  have "ProjectID clients = Quote (\<lambda>r. True) ''my-project''"
    by (simp add: sample_config_def)
  with quoteLoop_plain [OF plain, of "\<lambda>r. True"]
  have q: "ProjectID clients = [CHR 0x22] @ ''my-project'' @ [CHR 0x22]"
    by (simp add: Quote_def)
  from c have "ds = []" "DefaultOwner clients = ''owner@example.com''"
    "SiteVerification clients = sv_up" "DNS clients = dns_up"
    by (auto simp: Configure_def sample_env_def sample_config_def Let_def)
  with q have "clients = sample_configured"
    by (cases clients) (simp add: sample_configured_def)
  with c \<open>ds = []\<close> show ?thesis
    by simp
qed

text \<open>
  Claim C9, as the code has it. When the configuration gives the project as the string
  \<open>p\<close> and \<open>Configure\<close> builds the clients, their \<open>ProjectID\<close> is \<open>p\<close> formatted with
  \<open>%q\<close>: it is never \<open>p\<close> itself, and for a \<open>p\<close> of printable ASCII with no quote and
  no backslash it is \<open>p\<close> between two double quotes. Of the DNS operations only the
  write of \<open>Create\<close> for a plan whose project is null is made under this \<open>ProjectID\<close>;
  \<open>Create\<close> for a plan with a project, \<open>Read\<close>, \<open>Update\<close> and \<open>Delete\<close> call the DNS
  service under the project of the plan or state they are given.
\<close>

theorem Configure_project_quoted:
  assumes "Configure tbl env data = (ds, Some clients)"
    and "GoogleSiteVerificationProviderModel.Project data = StringValue p"
  shows "ProjectID clients = Quote tbl p
         \<and> ProjectID clients \<noteq> p
         \<and> ((\<forall>c\<in>set p. 0x20 \<le> (of_char c :: nat) \<and> (of_char c :: nat) \<le> 0x7E
                        \<and> c \<noteq> CHR 0x22 \<and> c \<noteq> CHR 0x5C) \<longrightarrow>
              ProjectID clients = [CHR 0x22] @ p @ [CHR 0x22])
         \<and> (\<forall>plan.
               (IsNull (SiteType plan) \<or> ValueString (SiteType plan) = ''INET_DOMAIN'')
               \<and> (IsNull (VerificationMethod plan)
                    \<or> ValueString (VerificationMethod plan) = ''DNS_TXT'')
               \<and> IsNull (Project plan) \<longrightarrow>
               take 1 (Calls (Create tbl clients plan))
               = [DNS_Create (Quote tbl p) ''global'' (ValueString (ManagedZone plan))
                    \<lparr>ResourceRecordSet.Name = forceDot (ValueString (SiteIdentifier plan)),
                     Rrdatas = [ValueString (Token plan)], Ttl = 60, Type = ''TXT''\<rparr>])
         \<and> (\<forall>plan c. c \<in> set (Calls (Create tbl clients plan)) \<longrightarrow>
               dnsProject c = None
               \<or> dnsProject c = Some (if IsNull (Project plan) then Quote tbl p
                                       else ValueString (Project plan)))
         \<and> (\<forall>model c. c \<in> set (Calls (Read clients model)) \<union> set (Calls (Update clients model))
                           \<union> set (Calls (Delete clients model)) \<longrightarrow>
               dnsProject c = None \<or> dnsProject c = Some (ValueString (Project model)))"
proof -
  from Configure_ProjectID [OF assms(1)] assms(2) have q: "ProjectID clients = Quote tbl p"
    by simp
  moreover have "Quote tbl p \<noteq> p"
    by (rule Quote_longer)
  moreover have "Quote tbl p = [CHR 0x22] @ p @ [CHR 0x22]"
    if "\<forall>c\<in>set p. 0x20 \<le> (of_char c :: nat) \<and> (of_char c :: nat) \<le> 0x7E
                  \<and> c \<noteq> CHR 0x22 \<and> c \<noteq> CHR 0x5C"
    using quoteLoop_plain [OF that] by (simp add: Quote_def)
  moreover have "take 1 (Calls (Create tbl clients plan))
               = [DNS_Create (Quote tbl p) ''global'' (ValueString (ManagedZone plan))
                    \<lparr>ResourceRecordSet.Name = forceDot (ValueString (SiteIdentifier plan)),
                     Rrdatas = [ValueString (Token plan)], Ttl = 60, Type = ''TXT''\<rparr>]"
    if "(IsNull (SiteType plan) \<or> ValueString (SiteType plan) = ''INET_DOMAIN'')
        \<and> (IsNull (VerificationMethod plan) \<or> ValueString (VerificationMethod plan) = ''DNS_TXT'')
        \<and> IsNull (Project plan)"
    for plan
  proof -
    from that have t: "IsNull (SiteType plan) \<or> ValueString (SiteType plan) = ''INET_DOMAIN''"
      and m: "IsNull (VerificationMethod plan) \<or> ValueString (VerificationMethod plan) = ''DNS_TXT''"
      and n: "IsNull (Project plan)"
      by simp_all
    from Create_dns_txt_calls [OF t m, of clients tbl] n q show ?thesis
      by (simp add: Let_def)
  qed
  moreover have "dnsProject c = None
               \<or> dnsProject c = Some (if IsNull (Project plan) then Quote tbl p
                                       else ValueString (Project plan))"
    if "c \<in> set (Calls (Create tbl clients plan))" for plan c
    using Create_project [OF that] q by (auto split: if_splits)
  moreover have "dnsProject c = None \<or> dnsProject c = Some (ValueString (Project model))"
    if "c \<in> set (Calls (Read clients model)) \<union> set (Calls (Update clients model))
            \<union> set (Calls (Delete clients model))"
    for model c
    using that Read_project [of c clients model] Update_project [of c clients model]
      Delete_project [of c clients model]
    by blast
  ultimately show ?thesis
    by simp
qed

theorem Configure_project_quoted_witness:
  "Configure (\<lambda>r. True) sample_env sample_config = ([], Some sample_configured)
   \<and> GoogleSiteVerificationProviderModel.Project sample_config = StringValue ''my-project''
   \<and> ProjectID sample_configured = [CHR 0x22] @ ''my-project'' @ [CHR 0x22]
   \<and> [CHR 0x22] @ ''my-project'' @ [CHR 0x22] \<noteq> ''my-project''
   \<and> IsNull (Project sample_plan)
   \<and> take 1 (Calls (Create (\<lambda>r. True) sample_configured sample_plan))
       = [DNS_Create ([CHR 0x22] @ ''my-project'' @ [CHR 0x22]) ''global'' ''zone''
            \<lparr>ResourceRecordSet.Name = ''example.com.'', Rrdatas = [''abc''], Ttl = 60,
             Type = ''TXT''\<rparr>]
   \<and> DNS_Delete ''my-project'' ''global'' ''zone'' ''example.com'' ''TXT''
       \<in> set (Calls (Delete sample_configured sample_state))
   \<and> dnsProject (DNS_Delete ''my-project'' ''global'' ''zone'' ''example.com'' ''TXT'')
       = Some (ValueString (Project sample_state))"
proof -
  have plain: "\<forall>c\<in>set ''my-project''. 0x20 \<le> (of_char c :: nat) \<and> (of_char c :: nat) \<le> 0x7E
                 \<and> c \<noteq> CHR 0x22 \<and> c \<noteq> CHR 0x5C"
    by simp
  have plan: "(IsNull (SiteType sample_plan) \<or> ValueString (SiteType sample_plan) = ''INET_DOMAIN'')
        \<and> (IsNull (VerificationMethod sample_plan)
             \<or> ValueString (VerificationMethod sample_plan) = ''DNS_TXT'')
        \<and> IsNull (Project sample_plan)"
    by (simp add: sample_plan_def)
  have p: "GoogleSiteVerificationProviderModel.Project sample_config = StringValue ''my-project''"
    by (simp add: sample_config_def)
  have del: "DNS_Delete ''my-project'' ''global'' ''zone'' ''example.com'' ''TXT''
       \<in> set (Calls (Read sample_configured sample_state))
         \<union> set (Calls (Update sample_configured sample_state))
         \<union> set (Calls (Delete sample_configured sample_state))"
    "DNS_Delete ''my-project'' ''global'' ''zone'' ''example.com'' ''TXT''
       \<in> set (Calls (Delete sample_configured sample_state))"
    by (simp_all add: Delete_def deleteDNSRecord_def deleteSiteVerification_def
          sample_configured_def dns_up_def sv_up_def sample_state_def)
  note quoted = Configure_project_quoted [OF Configure_sample p]
  from quoted plain
  have q: "ProjectID sample_configured = [CHR 0x22] @ ''my-project'' @ [CHR 0x22]"
    by blast
  from quoted have "ProjectID sample_configured = Quote (\<lambda>r. True) ''my-project''"
    by blast
  with q have qq: "Quote (\<lambda>r. True) ''my-project'' = [CHR 0x22] @ ''my-project'' @ [CHR 0x22]"
    by simp
  from quoted plan
  have w: "take 1 (Calls (Create (\<lambda>r. True) sample_configured sample_plan))
       = [DNS_Create (Quote (\<lambda>r. True) ''my-project'') ''global''
            (ValueString (ManagedZone sample_plan))
            \<lparr>ResourceRecordSet.Name = forceDot (ValueString (SiteIdentifier sample_plan)),
             Rrdatas = [ValueString (Token sample_plan)], Ttl = 60, Type = ''TXT''\<rparr>]"
    by blast
  from quoted del(1)
  have u: "dnsProject (DNS_Delete ''my-project'' ''global'' ''zone'' ''example.com'' ''TXT'') = None
           \<or> dnsProject (DNS_Delete ''my-project'' ''global'' ''zone'' ''example.com'' ''TXT'')
              = Some (ValueString (Project sample_state))"
    by blast
  have vals: "ValueString (ManagedZone sample_plan) = ''zone''"
    "forceDot (ValueString (SiteIdentifier sample_plan)) = ''example.com.''"
    "ValueString (Token sample_plan) = ''abc''"
    by (simp_all add: sample_plan_def forceDot_def HasSuffix_def)
  from w have "take 1 (Calls (Create (\<lambda>r. True) sample_configured sample_plan))
       = [DNS_Create ([CHR 0x22] @ ''my-project'' @ [CHR 0x22]) ''global'' ''zone''
            \<lparr>ResourceRecordSet.Name = ''example.com.'', Rrdatas = [''abc''], Ttl = 60,
             Type = ''TXT''\<rparr>]"
    unfolding qq vals .
  with Configure_sample p q plan del(2) u show ?thesis
    by simp
qed

text \<open>
  With the clients that \<open>Configure\<close> builds for the project \<open>my-project\<close>, whose
  \<open>ProjectID\<close> is that name in quotes: \<open>Delete\<close> and \<open>Read\<close> of a state whose project is
  \<open>my-project\<close> call the DNS service under \<open>my-project\<close>, and \<open>Update\<close> of a plan whose
  project is null calls it under the empty project. None of them uses the \<open>ProjectID\<close>.
\<close>

theorem ProjectID_not_used_by_all_dns_operations:
  "Configure (\<lambda>r. True) sample_env sample_config = ([], Some sample_configured)
   \<and> ProjectID sample_configured = [CHR 0x22] @ ''my-project'' @ [CHR 0x22]
   \<and> Calls (Delete sample_configured sample_state)
       = [DNS_Delete ''my-project'' ''global'' ''zone'' ''example.com'' ''TXT'',
          SV_Delete ''example.com'']
   \<and> Calls (Read sample_configured sample_state)
       = [DNS_Get ''my-project'' ''global'' ''zone'' ''example.com'' ''TXT'',
          SV_Get ''example.com'']
   \<and> take 1 (Calls (Update sample_configured sample_plan))
       = [DNS_Delete [] ''global'' ''zone'' ''example.com'' ''TXT'']
   \<and> ''my-project'' \<noteq> ProjectID sample_configured
   \<and> [] \<noteq> ProjectID sample_configured"
proof -
  have "Calls (Delete sample_configured sample_state)
       = [DNS_Delete ''my-project'' ''global'' ''zone'' ''example.com'' ''TXT'',
          SV_Delete ''example.com'']"
    by (simp add: Delete_def deleteDNSRecord_def deleteSiteVerification_def SiteID_def
          TrimSuffix_def HasSuffix_def sample_configured_def dns_up_def sv_up_def
          sample_state_def)
  moreover have "Calls (Read sample_configured sample_state)
       = [DNS_Get ''my-project'' ''global'' ''zone'' ''example.com'' ''TXT'',
          SV_Get ''example.com'']"
    by (simp add: Read_def readDNSRecord_def readSiteVerification_def SiteID_def
          TrimSuffix_def HasSuffix_def sample_configured_def dns_up_def sv_up_def
          sample_state_def)
  moreover have "take 1 (Calls (Update sample_configured sample_plan))
       = [DNS_Delete [] ''global'' ''zone'' ''example.com'' ''TXT'']"
    by (simp add: Update_def deleteDNSRecord_def createDNSRecord_def sample_configured_def
          dns_up_def sample_plan_def Let_def split: prod.splits sum.splits)
  moreover have "ProjectID sample_configured = [CHR 0x22] @ ''my-project'' @ [CHR 0x22]"
    by (simp add: sample_configured_def)
  ultimately show ?thesis
    using Configure_sample by simp
qed

text \<open>
  Claim C10. \<open>forceDot\<close> appends one trailing dot to a string that lacks one, as in
  \<open>forceDot "example.com" = "example.com."\<close>, leaves a string that already ends in a
  dot unchanged, and is idempotent.
\<close>

theorem forceDot_idempotent:
  "forceDot ''example.com'' = ''example.com.''
   \<and> (\<not> HasSuffix s ''.'' \<longrightarrow> forceDot s = s @ ''.'')
   \<and> (HasSuffix s ''.'' \<longrightarrow> forceDot s = s)
   \<and> forceDot (forceDot s) = forceDot s"
  by (simp add: forceDot_def HasSuffix_def)

theorem forceDot_idempotent_witness:
  "\<not> HasSuffix ''example.org'' ''.'' \<and> forceDot ''example.org'' = ''example.org.''
   \<and> HasSuffix ''example.org.'' ''.'' \<and> forceDot ''example.org.'' = ''example.org.''
   \<and> forceDot (forceDot ''example.org'') = forceDot ''example.org''"
  using forceDot_idempotent [of "''example.org''"] forceDot_idempotent [of "''example.org.''"]
  by (simp add: HasSuffix_def)

end
